theory Spec2Isabelle
  imports Complex_Main
begin

section \<open>Conventions of the embedding\<close>

text \<open>
  The module \<^verbatim>\<open>jarvis/tools/slme.py\<close> computes with Python floats and numpy
  \<^verbatim>\<open>float64\<close> arrays. They are embedded as exact reals (\<^typ>\<open>real\<close>,
  \<^typ>\<open>complex\<close>) and one-dimensional arrays as lists, so rounding, overflow to
  \<^verbatim>\<open>inf\<close>, \<^verbatim>\<open>nan\<close> and signed zeros are not part of the model. Where Python
  raises an exception the model returns \<open>Inl\<close> of the exception. numpy's
  elementwise division never raises (a zero denominator gives \<^verbatim>\<open>inf\<close> or
  \<^verbatim>\<open>nan\<close> and a warning); the model uses the total division of HOL there, so the
  raising behaviour is the source's, and the theorems about the values computed
  exclude the zero denominators in their hypotheses (positive constants, a
  positive temperature, positive wavelengths, a nonzero gap).

  What the module takes from outside the repository's sources is a parameter:
  the physical constants of \<^verbatim>\<open>scipy.constants\<close>, the rows of the bundled
  table \<^verbatim>\<open>am1.5g.dat\<close>, \<^verbatim>\<open>scipy.integrate.simps\<close>, the spline fitted by
  \<^verbatim>\<open>scipy.interpolate.interp1d\<close> and \<^verbatim>\<open>numpy.linalg.eigvals\<close>.
\<close>

datatype error =
    ImportError
  | NotImplementedError
  | ZeroDivisionError
  | TypeError
  | ValueError
  | IndexError
  | LinAlgError

subsection \<open>Physical constants\<close>

text \<open>
  \<^verbatim>\<open>c = constants.c; h = constants.h; k = constants.k; e = constants.e\<close>, and
  \<^verbatim>\<open>constants.hbar\<close>.
\<close>

record constants =
  const_c :: real
  const_h :: real
  const_k :: real
  const_e :: real
  const_hbar :: real

definition h_e :: "constants \<Rightarrow> real" where
  "h_e C = const_h C / const_e C"

definition k_e :: "constants \<Rightarrow> real" where
  "k_e C = const_k C / const_e C"

text \<open>Every constant of \<^verbatim>\<open>scipy.constants\<close> used here is positive.\<close>

definition physical :: "constants \<Rightarrow> bool" where
  "physical C \<longleftrightarrow>
     0 < const_c C \<and> 0 < const_h C \<and> 0 < const_k C \<and> 0 < const_e C \<and> 0 < const_hbar C"

text \<open>The values of CODATA 2018 (exact in the SI since 2019), as scipy 1.4 and later give them.\<close>

definition CODATA :: constants where
  "CODATA = \<lparr> const_c = 299792458,
              const_h = 662607015 / 10 ^ 42,
              const_k = 1380649 / 10 ^ 29,
              const_e = 1602176634 / 10 ^ 28,
              const_hbar = (662607015 / 10 ^ 42) / (2 * pi) \<rparr>"

subsection \<open>numpy arithmetic on one-dimensional arrays\<close>

text \<open>
  A binary operation on two arrays of shapes \<open>(m,)\<close> and \<open>(n,)\<close>: elementwise when
  \<open>m = n\<close>, an array of one element is stretched, and any other pair of shapes raises
  \<^verbatim>\<open>ValueError\<close> (operands could not be broadcast together).
\<close>

definition np_broadcast ::
  "(real \<Rightarrow> real \<Rightarrow> real) \<Rightarrow> real list \<Rightarrow> real list \<Rightarrow> error + real list" where
  "np_broadcast f a b =
     (if length a = length b then Inr (map2 f a b)
      else if length a = 1 then Inr (map (f (hd a)) b)
      else if length b = 1 then Inr (map (\<lambda>x. f x (hd b)) a)
      else Inl ValueError)"

section \<open>The dielectric tensor: class DielTensor\<close>

type_synonym 'a matrix3 = "('a \<times> 'a \<times> 'a) \<times> ('a \<times> 'a \<times> 'a) \<times> ('a \<times> 'a \<times> 'a)"

text \<open>
  \<^verbatim>\<open>matrix = np.array([[xx, xy, xz], [xy, yy, yz], [xz, yz, zz]])\<close>
\<close>

definition to_matrix :: "'a \<Rightarrow> 'a \<Rightarrow> 'a \<Rightarrow> 'a \<Rightarrow> 'a \<Rightarrow> 'a \<Rightarrow> 'a matrix3" where
  "to_matrix xx yy zz xy yz xz = ((xx, xy, xz), (xy, yy, yz), (xz, yz, zz))"

text \<open>
  The call \<^verbatim>\<open>to_matrix(*real_data)\<close>: the sequence is unpacked into the six
  positional parameters, and any other number of arguments is a \<^verbatim>\<open>TypeError\<close>.
\<close>

fun to_matrix_star :: "'a list \<Rightarrow> error + 'a matrix3" where
  "to_matrix_star [xx, yy, zz, xy, yz, xz] = Inr (to_matrix xx yy zz xy yz xz)"
| "to_matrix_star _ = Inl TypeError"

text \<open>
  The items a dielectric-data tuple holds after its energy grid: a sequence of rows of
  tensor components (the vasprun format), or an array of complex 3x3 tensors (the
  OUTCAR format).
\<close>

datatype item =
    Rows "real list list"
  | Tensors "complex matrix3 list"

text \<open>
  The constructor's argument. \<open>PyTuple es items\<close> is the tuple whose first element is
  the energy grid \<open>es\<close> and whose other elements are \<open>items\<close>; \<open>EmptyTuple\<close> is \<open>()\<close>;
  \<open>NotTuple\<close> is any object whose type is not \<^verbatim>\<open>tuple\<close> (a list, an array, None).
\<close>

datatype dielectric_data =
    PyTuple "real list" "item list"
  | EmptyTuple
  | NotTuple

text \<open>
  \<^verbatim>\<open>type(d) is tuple\<close> and \<^verbatim>\<open>len(d)\<close>. The source asks for the length only after
  the type test has succeeded (\<^verbatim>\<open>and\<close> evaluates its second operand only then), so the
  value of \<open>len NotTuple\<close> is never read.
\<close>

fun is_tuple :: "dielectric_data \<Rightarrow> bool" where
  "is_tuple (PyTuple es items) = True"
| "is_tuple EmptyTuple = True"
| "is_tuple NotTuple = False"

fun len :: "dielectric_data \<Rightarrow> nat" where
  "len (PyTuple es items) = Suc (length items)"
| "len EmptyTuple = 0"
| "len NotTuple = 0"

text \<open>
  What iterating an item and unpacking each element into \<^verbatim>\<open>to_matrix\<close> gives: a row
  unpacks into its components; a 3x3 tensor unpacks into its three rows, which are
  too few arguments.
\<close>

fun unpacked :: "item \<Rightarrow> (error + real matrix3) list" where
  "unpacked (Rows rs) = map to_matrix_star rs"
| "unpacked (Tensors ts) = map (\<lambda>t. Inl TypeError) ts"

text \<open>\<^verbatim>\<open>to_matrix(*real_data) + 1j * to_matrix(*imag_data)\<close>, left operand first.\<close>

definition complex_matrix :: "real matrix3 \<Rightarrow> real matrix3 \<Rightarrow> complex matrix3" where
  "complex_matrix re im =
     (case (re, im) of
        (((a1, a2, a3), (a4, a5, a6), (a7, a8, a9)), ((b1, b2, b3), (b4, b5, b6), (b7, b8, b9))) \<Rightarrow>
          ((Complex a1 b1, Complex a2 b2, Complex a3 b3),
           (Complex a4 b4, Complex a5 b5, Complex a6 b6),
           (Complex a7 b7, Complex a8 b8, Complex a9 b9)))"

fun tensor_list :: "(error + real matrix3) list \<Rightarrow> (error + real matrix3) list
                    \<Rightarrow> error + complex matrix3 list" where
  "tensor_list (r # rs) (i # is) =
     (case r of Inl err \<Rightarrow> Inl err
      | Inr re \<Rightarrow>
         (case i of Inl err \<Rightarrow> Inl err
          | Inr im \<Rightarrow>
             (case tensor_list rs is of Inl err \<Rightarrow> Inl err
              | Inr ts \<Rightarrow> Inr (complex_matrix re im # ts))))"
| "tensor_list _ _ = Inr []"

record DielTensor =
  energies :: "real list"
  dielectric_tensor :: item

definition parse_dielectric_data :: "dielectric_data \<Rightarrow> error + real list \<times> item" where
  "parse_dielectric_data dielectric_data =
     (if is_tuple dielectric_data \<and> len dielectric_data = 3 then
        (case dielectric_data of
           PyTuple es items \<Rightarrow>
             (case tensor_list (unpacked (items ! 0)) (unpacked (items ! 1)) of
                Inl err \<Rightarrow> Inl err
              | Inr ts \<Rightarrow> Inr (es, Tensors ts))
         | _ \<Rightarrow> Inl ImportError)
      else if is_tuple dielectric_data \<and> len dielectric_data = 2 then
        (case dielectric_data of
           PyTuple es items \<Rightarrow> Inr (es, items ! 0)
         | _ \<Rightarrow> Inl ImportError)
      else Inl ImportError)"

text \<open>\<^verbatim>\<open>DielTensor.__init__\<close>\<close>

definition DielTensor_init :: "dielectric_data \<Rightarrow> error + DielTensor" where
  "DielTensor_init dielectric_data =
     (case parse_dielectric_data dielectric_data of
        Inl err \<Rightarrow> Inl err
      | Inr (es, t) \<Rightarrow> Inr \<lparr> energies = es, dielectric_tensor = t \<rparr>)"

text \<open>
  \<^verbatim>\<open>np.mean(np.linalg.eigvals(tensor))\<close>: \<open>eigvals\<close> is numpy's, a parameter giving the
  three eigenvalues of a 3x3 matrix. Applied to a row of numbers, which is not a
  square matrix, numpy raises \<^verbatim>\<open>LinAlgError\<close>.
\<close>

definition mean3 :: "complex \<times> complex \<times> complex \<Rightarrow> complex" where
  "mean3 v = (case v of (a, b, d) \<Rightarrow> (a + b + d) / 3)"

fun dielectric_function ::
  "(complex matrix3 \<Rightarrow> complex \<times> complex \<times> complex) \<Rightarrow> DielTensor \<Rightarrow> error + complex list" where
  "dielectric_function eigvals D =
     (case dielectric_tensor D of
        Tensors ts \<Rightarrow> Inr (map (\<lambda>tensor. mean3 (eigvals tensor)) ts)
      | Rows [] \<Rightarrow> Inr []
      | Rows (r # rs) \<Rightarrow> Inl LinAlgError)"

text \<open>
  \<^verbatim>\<open>k = np.array([cmath.sqrt(v).imag for v in self.dielectric_function])\<close> and
  \<^verbatim>\<open>2.0 * E * k / (constants.hbar / constants.e * constants.c)\<close>
\<close>

definition absorption_coefficient ::
  "constants \<Rightarrow> (complex matrix3 \<Rightarrow> complex \<times> complex \<times> complex) \<Rightarrow> DielTensor
   \<Rightarrow> error + real list" where
  "absorption_coefficient C eigvals D =
     (case dielectric_function eigvals D of
        Inl err \<Rightarrow> Inl err
      | Inr vs \<Rightarrow>
          (let E = energies D;
               k = map (\<lambda>v. Im (csqrt v)) vs
           in case np_broadcast (\<lambda>x y. x * y) (map (\<lambda>x. 2 * x) E) k of
                Inl err \<Rightarrow> Inl err
              | Inr a \<Rightarrow> Inr (map (\<lambda>x. x / (const_hbar C / const_e C * const_c C)) a)))"

section \<open>The radiation spectrum: class EMRadSpectrum\<close>

record EMRadSpectrum =
  spectrum_energy :: "real list"
  spectrum_photon_flux :: "real list"

text \<open>\<^verbatim>\<open>EMRadSpectrum.from_data(data, variable="energy", spectrum_units="flux")\<close>\<close>

definition from_data ::
  "constants \<Rightarrow> real list \<times> real list \<Rightarrow> string \<Rightarrow> string \<Rightarrow> error + EMRadSpectrum" where
  "from_data C data variable spectrum_units =
     (case
        (if variable = ''energy'' then Inr (fst data, snd data)
         else if variable = ''wavelength'' then
           (let energy = rev (map (\<lambda>w. h_e C * const_c C / w) (fst data))
            in case np_broadcast (\<lambda>x y. x / y)
                      (map (\<lambda>s. s * h_e C * const_c C) (rev (snd data)))
                      (map (\<lambda>x. x ^ 2) energy) of
                 Inl err \<Rightarrow> Inl err
               | Inr spectrum \<Rightarrow> Inr (energy, spectrum))
         else Inl NotImplementedError)
      of
        Inl err \<Rightarrow> Inl err
      | Inr (energy, spectrum) \<Rightarrow>
          (if spectrum_units = ''flux'' then
             Inr \<lparr> spectrum_energy = energy, spectrum_photon_flux = spectrum \<rparr>
           else if spectrum_units = ''power'' then
             (case np_broadcast (\<lambda>x y. x / y) spectrum (map (\<lambda>x. const_e C * x) energy) of
                Inl err \<Rightarrow> Inl err
              | Inr photon_flux \<Rightarrow>
                  Inr \<lparr> spectrum_energy = energy, spectrum_photon_flux = photon_flux \<rparr>)
           else Inl NotImplementedError))"

section \<open>The efficiency engine: calculate_SQ and slme\<close>

subsection \<open>The solar spectrum and the blackbody spectrum (both functions)\<close>

text \<open>
  \<open>table\<close> holds the rows of \<^verbatim>\<open>am1.5g.dat\<close> after its two header lines: the
  wavelength in nm and the irradiance.
\<close>

definition solar_spectra_wavelength :: "(real \<times> real) list \<Rightarrow> real list" where
  "solar_spectra_wavelength table = map fst table"

definition solar_spectra_irradiance :: "(real \<times> real) list \<Rightarrow> real list" where
  "solar_spectra_irradiance table = map snd table"

definition solar_spectra_wavelength_meters :: "(real \<times> real) list \<Rightarrow> real list" where
  "solar_spectra_wavelength_meters table =
     map (\<lambda>w. w * (1 / 10 ^ 9)) (solar_spectra_wavelength table)"

definition solar_spectra_photon_flux :: "constants \<Rightarrow> (real \<times> real) list \<Rightarrow> real list" where
  "solar_spectra_photon_flux C table =
     map2 (\<lambda>irradiance wm. irradiance * (wm / (const_h C * const_c C)))
       (solar_spectra_irradiance table) (solar_spectra_wavelength_meters table)"

definition power_in :: "(real list \<Rightarrow> real list \<Rightarrow> real) \<Rightarrow> (real \<times> real) list \<Rightarrow> real" where
  "power_in simps table = simps (solar_spectra_irradiance table) (solar_spectra_wavelength table)"

definition blackbody_irradiance :: "constants \<Rightarrow> real \<Rightarrow> (real \<times> real) list \<Rightarrow> real list" where
  "blackbody_irradiance C temperature table =
     map (\<lambda>wm. (2 * const_h C * const_c C ^ 2 / wm ^ 5)
               * (1 / (exp (const_h C * const_c C / (wm * const_k C * temperature)) - 1)))
       (solar_spectra_wavelength_meters table)"

definition blackbody_photon_flux :: "constants \<Rightarrow> real \<Rightarrow> (real \<times> real) list \<Rightarrow> real list" where
  "blackbody_photon_flux C temperature table =
     map2 (\<lambda>b wm. b * (wm / (const_h C * const_c C)))
       (blackbody_irradiance C temperature table) (solar_spectra_wavelength_meters table)"

subsection \<open>The power maximisation (both functions)\<close>

text \<open>
  \<^verbatim>\<open>J = J_sc - J_0 * (np.exp(e * V / (k * temperature)) - 1.0)\<close> and
  \<^verbatim>\<open>p = J(V) * V\<close>
\<close>

definition J :: "constants \<Rightarrow> real \<Rightarrow> real \<Rightarrow> real \<Rightarrow> real \<Rightarrow> real" where
  "J C J_sc J_0 temperature V =
     J_sc - J_0 * (exp (const_e C * V / (const_k C * temperature)) - 1)"

definition power_V :: "constants \<Rightarrow> real \<Rightarrow> real \<Rightarrow> real \<Rightarrow> real \<Rightarrow> real" where
  "power_V C J_sc J_0 temperature V = J C J_sc J_0 temperature V * V"

definition voltage_step :: real where
  "voltage_step = 1 / 1000"

text \<open>
  \<^verbatim>\<open>while power(test_voltage + voltage_step) > power(test_voltage):
      test_voltage += voltage_step\<close>
  The loop has no bound, so it is a partial function: \<open>None\<close> is a loop that never
  leaves. \<^verbatim>\<open>max_power = power(test_voltage)\<close> with \<^verbatim>\<open>test_voltage = 0\<close> at the start.
\<close>

partial_function (option) test_voltage_loop :: "(real \<Rightarrow> real) \<Rightarrow> real \<Rightarrow> real option" where
  "test_voltage_loop P test_voltage =
     (if P (test_voltage + voltage_step) > P test_voltage
      then test_voltage_loop P (test_voltage + voltage_step)
      else Some test_voltage)"

definition max_power :: "(real \<Rightarrow> real) \<Rightarrow> real option" where
  "max_power P = map_option P (test_voltage_loop P 0)"

subsection \<open>calculate_SQ\<close>

definition bandgap_wavelength :: "constants \<Rightarrow> real \<Rightarrow> real" where
  "bandgap_wavelength C bandgap_ev = h_e C * const_c C / bandgap_ev"

text \<open>
  \<^verbatim>\<open>np.searchsorted(a, v)\<close> (side left) on an ascending array: the number of elements
  below \<open>v\<close>.
\<close>

definition searchsorted :: "real list \<Rightarrow> real \<Rightarrow> nat" where
  "searchsorted a v = length (takeWhile (\<lambda>x. x < v) a)"

text \<open>
  \<^verbatim>\<open>numpy.interp(x, xp, fp)\<close> for ascending \<open>xp\<close>: the value of the piecewise linear
  interpolant, \<open>fp[0]\<close> to the left of the points and \<open>fp[-1]\<close> to their right.
\<close>

fun interp_from :: "real \<Rightarrow> real \<times> real \<Rightarrow> (real \<times> real) list \<Rightarrow> real" where
  "interp_from x (x0, y0) [] = y0"
| "interp_from x (x0, y0) ((x1, y1) # ps) =
     (if x \<le> x0 then y0
      else if x < x1 then (y1 - y0) / (x1 - x0) * (x - x0) + y0
      else interp_from x (x1, y1) ps)"

definition interp :: "real \<Rightarrow> real list \<Rightarrow> real list \<Rightarrow> error + real" where
  "interp x xp fp =
     (if length xp \<noteq> length fp then Inl ValueError
      else case zip xp fp of
             [] \<Rightarrow> Inl ValueError
           | p # ps \<Rightarrow> Inr (interp_from x p ps))"

definition bandgap_index :: "constants \<Rightarrow> (real \<times> real) list \<Rightarrow> real \<Rightarrow> nat" where
  "bandgap_index C table bandgap_ev =
     searchsorted (solar_spectra_wavelength_meters table) (bandgap_wavelength C bandgap_ev)"

definition bandgap_irradiance :: "constants \<Rightarrow> (real \<times> real) list \<Rightarrow> real \<Rightarrow> error + real" where
  "bandgap_irradiance C table bandgap_ev =
     interp (bandgap_wavelength C bandgap_ev)
       (solar_spectra_wavelength_meters table) (solar_spectra_photon_flux C table)"

definition bandgap_blackbody :: "constants \<Rightarrow> real \<Rightarrow> real \<Rightarrow> real" where
  "bandgap_blackbody C temperature bandgap_ev =
     (2 * const_h C * const_c C ^ 2 / (bandgap_wavelength C bandgap_ev) ^ 5)
     * (1 / (exp (const_h C * const_c C
                  / (bandgap_wavelength C bandgap_ev * const_k C * temperature)) - 1))
     * (bandgap_wavelength C bandgap_ev / (const_h C * const_c C))"

definition integration_wavelength :: "constants \<Rightarrow> (real \<times> real) list \<Rightarrow> real \<Rightarrow> real list" where
  "integration_wavelength C table bandgap_ev =
     take (bandgap_index C table bandgap_ev) (solar_spectra_wavelength_meters table)
     @ [bandgap_wavelength C bandgap_ev]"

definition integration_solar_flux ::
  "constants \<Rightarrow> (real \<times> real) list \<Rightarrow> real \<Rightarrow> error + real list" where
  "integration_solar_flux C table bandgap_ev =
     (case bandgap_irradiance C table bandgap_ev of
        Inl err \<Rightarrow> Inl err
      | Inr b \<Rightarrow>
          Inr (take (bandgap_index C table bandgap_ev) (solar_spectra_photon_flux C table) @ [b]))"

definition integration_blackbody ::
  "constants \<Rightarrow> (real \<times> real) list \<Rightarrow> real \<Rightarrow> real \<Rightarrow> real list" where
  "integration_blackbody C table temperature bandgap_ev =
     take (bandgap_index C table bandgap_ev) (blackbody_photon_flux C temperature table)
     @ [bandgap_blackbody C temperature bandgap_ev]"

definition SQ_J_0_r ::
  "constants \<Rightarrow> (real list \<Rightarrow> real list \<Rightarrow> real) \<Rightarrow> (real \<times> real) list \<Rightarrow> real \<Rightarrow> real \<Rightarrow> real" where
  "SQ_J_0_r C simps table temperature bandgap_ev =
     const_e C * pi * simps (integration_blackbody C table temperature bandgap_ev)
                            (integration_wavelength C table bandgap_ev)"

definition SQ_J_sc ::
  "constants \<Rightarrow> (real list \<Rightarrow> real list \<Rightarrow> real) \<Rightarrow> (real \<times> real) list \<Rightarrow> real list \<Rightarrow> real \<Rightarrow> real" where
  "SQ_J_sc C simps table flux bandgap_ev =
     const_e C * simps (map (\<lambda>x. x * 10 ^ 9) flux) (integration_wavelength C table bandgap_ev)"

text \<open>
  \<^verbatim>\<open>calculate_SQ(bandgap_ev, temperature=300, fr=1)\<close>. The scalar divisions of Python
  floats raise \<^verbatim>\<open>ZeroDivisionError\<close>: \<^verbatim>\<open>h_e * c / bandgap_ev\<close> and the three of
  \<^verbatim>\<open>bandgap_blackbody\<close>. The result is \<open>None\<close> when the voltage loop never leaves.
\<close>

definition calculate_SQ ::
  "constants \<Rightarrow> (real \<times> real) list \<Rightarrow> (real list \<Rightarrow> real list \<Rightarrow> real)
   \<Rightarrow> real \<Rightarrow> real \<Rightarrow> real \<Rightarrow> (error + real) option" where
  "calculate_SQ C table simps bandgap_ev temperature fr =
     (if bandgap_ev = 0 then Some (Inl ZeroDivisionError)
      else case integration_solar_flux C table bandgap_ev of
        Inl err \<Rightarrow> Some (Inl err)
      | Inr flux \<Rightarrow>
         (if (bandgap_wavelength C bandgap_ev) ^ 5 = 0
             \<or> bandgap_wavelength C bandgap_ev * const_k C * temperature = 0
             \<or> const_h C * const_c C = 0
          then Some (Inl ZeroDivisionError)
          else
            (let J_0_r = SQ_J_0_r C simps table temperature bandgap_ev;
                 J_0 = J_0_r / fr;
                 J_sc = SQ_J_sc C simps table flux bandgap_ev
             in case max_power (power_V C J_sc J_0 temperature) of
                  None \<Rightarrow> None
                | Some p \<Rightarrow> Some (Inr (p / power_in simps table)))))"

subsection \<open>slme\<close>

text \<open>
  \<^verbatim>\<open>delta = material_direct_allowed_gap - material_indirect_gap\<close> and
  \<^verbatim>\<open>fr = np.exp(-delta / (k_e * temperature))\<close>
\<close>

definition slme_fr :: "constants \<Rightarrow> real \<Rightarrow> real \<Rightarrow> real \<Rightarrow> real" where
  "slme_fr C material_direct_allowed_gap material_indirect_gap temperature =
     (let delta = material_direct_allowed_gap - material_indirect_gap
      in exp (- delta / (k_e C * temperature)))"

definition material_wavelength_for_absorbance_data :: "constants \<Rightarrow> real list \<Rightarrow> real list" where
  "material_wavelength_for_absorbance_data C material_energy_for_absorbance_data =
     map (\<lambda>E. ((const_c C * h_e C) / (E + 1 / 10 ^ 8)) * 10 ^ 9)
       material_energy_for_absorbance_data"

text \<open>
  \<^verbatim>\<open>interp1d(x, y, kind='cubic', fill_value=(below, above), bounds_error=False)\<close>.
  scipy sorts the points by \<open>x\<close> (\<^verbatim>\<open>assume_sorted=False\<close>), fits the spline, and
  the function it returns gives \<open>below\<close> where \<open>x_new < x[0]\<close> and \<open>above\<close> where
  \<open>x_new > x[-1]\<close>, with \<open>x\<close> the sorted array. The fit is scipy's own: the parameter
  \<open>cubic\<close> maps the sorted points to the spline, or to the exception scipy raises for
  them.
\<close>

definition interp1d ::
  "((real \<times> real) list \<Rightarrow> error + (real \<Rightarrow> real)) \<Rightarrow> real list \<Rightarrow> real list \<Rightarrow> real \<times> real
   \<Rightarrow> error + (real \<Rightarrow> real)" where
  "interp1d cubic x y fill_value =
     (if x = [] \<or> length x \<noteq> length y then Inl ValueError
      else
        (let points = sort_key fst (zip x y)
         in case cubic points of
              Inl err \<Rightarrow> Inl err
            | Inr spline \<Rightarrow>
                Inr (\<lambda>x_new. if x_new < fst (hd points) then fst fill_value
                             else if x_new > fst (last points) then snd fill_value
                             else spline x_new)))"

text \<open>
  \<^verbatim>\<open>fill_value=(material_absorbance_data[0], material_absorbance_data[-1])\<close>: indexing
  an empty array raises \<^verbatim>\<open>IndexError\<close>.
\<close>

definition material_absorbance_data_function ::
  "constants \<Rightarrow> ((real \<times> real) list \<Rightarrow> error + (real \<Rightarrow> real)) \<Rightarrow> real list \<Rightarrow> real list
   \<Rightarrow> error + (real \<Rightarrow> real)" where
  "material_absorbance_data_function C cubic material_energy_for_absorbance_data
       material_absorbance_data =
     (if material_absorbance_data = [] then Inl IndexError
      else interp1d cubic
             (material_wavelength_for_absorbance_data C material_energy_for_absorbance_data)
             material_absorbance_data
             (hd material_absorbance_data, last material_absorbance_data))"

text \<open>
  The loop over the solar wavelengths that fills \<^verbatim>\<open>material_interpolated_absorbance\<close>,
  an array of zeros at the start. Its test divides by the direct allowed gap, two
  Python floats, in every round.
\<close>

definition material_interpolated_absorbance ::
  "constants \<Rightarrow> (real \<times> real) list \<Rightarrow> (real \<Rightarrow> real) \<Rightarrow> real \<Rightarrow> bool \<Rightarrow> error + real list" where
  "material_interpolated_absorbance C table f material_direct_allowed_gap
       cut_off_absorbance_below_direct_allowed_gap =
     (if table \<noteq> [] \<and> material_direct_allowed_gap = 0 then Inl ZeroDivisionError
      else Inr (map (\<lambda>w. if w < 10 ^ 9 * ((const_c C * h_e C) / material_direct_allowed_gap)
                             \<or> cut_off_absorbance_below_direct_allowed_gap = False
                          then f w else 0)
                  (solar_spectra_wavelength table)))"

definition absorbed_by_wavelength :: "real \<Rightarrow> real list \<Rightarrow> real list" where
  "absorbed_by_wavelength thickness absorbance =
     map (\<lambda>a. 1 - exp (- 2 * a * thickness)) absorbance"

definition slme_J_0_r ::
  "constants \<Rightarrow> (real list \<Rightarrow> real list \<Rightarrow> real) \<Rightarrow> (real \<times> real) list \<Rightarrow> real \<Rightarrow> real list \<Rightarrow> real" where
  "slme_J_0_r C simps table temperature absorbed =
     const_e C * pi * simps (map2 (\<lambda>b a. b * a) (blackbody_photon_flux C temperature table) absorbed)
                            (solar_spectra_wavelength_meters table)"

definition slme_J_0 ::
  "constants \<Rightarrow> (real list \<Rightarrow> real list \<Rightarrow> real) \<Rightarrow> (real \<times> real) list \<Rightarrow> real \<Rightarrow> real list
   \<Rightarrow> real \<Rightarrow> real \<Rightarrow> real" where
  "slme_J_0 C simps table temperature absorbed material_direct_allowed_gap material_indirect_gap =
     slme_J_0_r C simps table temperature absorbed
     / slme_fr C material_direct_allowed_gap material_indirect_gap temperature"

definition slme_J_sc ::
  "constants \<Rightarrow> (real list \<Rightarrow> real list \<Rightarrow> real) \<Rightarrow> (real \<times> real) list \<Rightarrow> real list \<Rightarrow> real" where
  "slme_J_sc C simps table absorbed =
     const_e C * simps (map2 (\<lambda>s a. s * a) (solar_spectra_photon_flux C table) absorbed)
                       (solar_spectra_wavelength table)"

text \<open>
  \<^verbatim>\<open>slme(material_energy_for_absorbance_data, material_absorbance_data,
  material_direct_allowed_gap, material_indirect_gap, thickness, temperature,
  absorbance_in_inverse_centimeters, cut_off_absorbance_below_direct_allowed_gap)\<close>
\<close>

definition slme ::
  "constants \<Rightarrow> (real \<times> real) list \<Rightarrow> (real list \<Rightarrow> real list \<Rightarrow> real)
   \<Rightarrow> ((real \<times> real) list \<Rightarrow> error + (real \<Rightarrow> real))
   \<Rightarrow> real list \<Rightarrow> real list \<Rightarrow> real \<Rightarrow> real \<Rightarrow> real \<Rightarrow> real \<Rightarrow> bool \<Rightarrow> bool
   \<Rightarrow> (error + real) option" where
  "slme C table simps cubic material_energy_for_absorbance_data material_absorbance_data
        material_direct_allowed_gap material_indirect_gap thickness temperature
        absorbance_in_inverse_centimeters cut_off_absorbance_below_direct_allowed_gap =
     (let absorbance_data = (if absorbance_in_inverse_centimeters
                             then map (\<lambda>a. a * 100) material_absorbance_data
                             else material_absorbance_data)
      in if k_e C * temperature = 0 then Some (Inl ZeroDivisionError)
         else case material_absorbance_data_function C cubic
                     material_energy_for_absorbance_data absorbance_data of
           Inl err \<Rightarrow> Some (Inl err)
         | Inr f \<Rightarrow>
            (case material_interpolated_absorbance C table f material_direct_allowed_gap
                    cut_off_absorbance_below_direct_allowed_gap of
               Inl err \<Rightarrow> Some (Inl err)
             | Inr absorbance \<Rightarrow>
                (let absorbed = absorbed_by_wavelength thickness absorbance;
                     J_0 = slme_J_0 C simps table temperature absorbed
                             material_direct_allowed_gap material_indirect_gap;
                     J_sc = slme_J_sc C simps table absorbed
                 in if const_k C * temperature = 0 then Some (Inl ZeroDivisionError)
                    else case max_power (power_V C J_sc J_0 temperature) of
                           None \<Rightarrow> None
                         | Some p \<Rightarrow> Some (Inr (p / power_in simps table)))))"

section \<open>Notions the properties are stated with\<close>

text \<open>
  A curve on the voltages \<open>V \<ge> 0\<close> is unimodal with its maximum at \<open>Vm\<close> when it rises
  strictly up to \<open>Vm\<close> and falls strictly after it.
\<close>

definition unimodal :: "(real \<Rightarrow> real) \<Rightarrow> real \<Rightarrow> bool" where
  "unimodal P Vm \<longleftrightarrow>
     0 \<le> Vm \<and> (\<forall>x y. 0 \<le> x \<and> x < y \<and> y \<le> Vm \<longrightarrow> P x < P y)
            \<and> (\<forall>x y. Vm \<le> x \<and> x < y \<longrightarrow> P y < P x)"

text \<open>
  The derivative of the diode power curve \<open>(J_sc - J_0 (exp (a V) - 1)) V\<close>, where
  \<open>a = e / (k T)\<close>.
\<close>

definition power_slope :: "real \<Rightarrow> real \<Rightarrow> real \<Rightarrow> real \<Rightarrow> real" where
  "power_slope J_sc J_0 a V = (J_sc + J_0) - J_0 * (exp (a * V) * (1 + a * V))"

text \<open>
  The eigenvalues of a diagonal matrix are its diagonal entries: what
  \<^verbatim>\<open>numpy.linalg.eigvals\<close> gives for the tensors of the examples.
\<close>

definition diag_eigvals :: "complex matrix3 \<Rightarrow> complex \<times> complex \<times> complex" where
  "diag_eigvals m = (case m of ((a, _, _), (_, b, _), (_, _, d)) \<Rightarrow> (a, b, d))"

text \<open>
  The photon flux of Planck's law at one wavelength (in m): the expression calculate_SQ
  and slme evaluate at every wavelength of the table, and calculate_SQ once more at the
  wavelength of the band gap.
\<close>

definition planck_flux :: "constants \<Rightarrow> real \<Rightarrow> real \<Rightarrow> real" where
  "planck_flux C temperature wm =
     (2 * const_h C * const_c C ^ 2 / wm ^ 5)
     * (1 / (exp (const_h C * const_c C / (wm * const_k C * temperature)) - 1))
     * (wm / (const_h C * const_c C))"

text \<open>
  A table of two rows, at 500 nm and 1500 nm, and the band gap whose wavelength is
  1000 nm, for the examples.
\<close>

definition example_table :: "(real \<times> real) list" where
  "example_table = [(500, 1), (1500, 1)]"

definition example_gap :: real where
  "example_gap = h_e CODATA * const_c CODATA * 10 ^ 6"

section \<open>The voltage loop\<close>

lemma CODATA_physical: "physical CODATA"
  by (simp add: physical_def CODATA_def)

lemma loop_from:
  assumes up: "\<forall>m<n. P (real m * voltage_step) < P (real m * voltage_step + voltage_step)"
      and stop: "\<not> P (real n * voltage_step) < P (real n * voltage_step + voltage_step)"
  shows "i \<le> n \<Longrightarrow> test_voltage_loop P (real i * voltage_step) = Some (real n * voltage_step)"
proof (induction "n - i" arbitrary: i)
  case 0
  then have "i = n" by simp
  then show ?case using stop by (subst test_voltage_loop.simps) simp
next
  case (Suc d)
  then have lt: "i < n" and d: "d = n - Suc i" and le: "Suc i \<le> n" by simp_all
  have step: "real i * voltage_step + voltage_step = real (Suc i) * voltage_step"
    by (simp add: algebra_simps)
  have "P (real i * voltage_step) < P (real i * voltage_step + voltage_step)"
    using up lt by blast
  then have "test_voltage_loop P (real i * voltage_step)
             = test_voltage_loop P (real (Suc i) * voltage_step)"
    by (subst test_voltage_loop.simps) (simp add: step)
  also have "\<dots> = Some (real n * voltage_step)"
    using Suc.hyps(1)[OF d le] .
  finally show ?case .
qed

lemma unimodal_first:
  assumes "unimodal P Vm"
  shows "\<exists>n. (\<forall>m<n. P (real m * voltage_step) < P (real m * voltage_step + voltage_step))
            \<and> \<not> P (real n * voltage_step) < P (real n * voltage_step + voltage_step)"
proof -
  let ?Q = "\<lambda>n. \<not> P (real n * voltage_step) < P (real n * voltage_step + voltage_step)"
  define N where "N = nat \<lceil>Vm / voltage_step\<rceil>"
  have "Vm \<le> real N * voltage_step"
    unfolding N_def voltage_step_def using assms unfolding unimodal_def
    by (simp add: field_simps)
  then have "P (real N * voltage_step + voltage_step) < P (real N * voltage_step)"
    using assms unfolding unimodal_def voltage_step_def by simp
  then have "?Q N" by simp
  then have "?Q (LEAST n. ?Q n)" by (rule LeastI)
  moreover have "\<forall>m<(LEAST n. ?Q n). \<not> ?Q m"
    using not_less_Least by blast
  ultimately show ?thesis by blast
qed

lemma unimodal_close:
  assumes u: "unimodal P Vm"
      and up: "\<forall>m<n. P (real m * voltage_step) < P (real m * voltage_step + voltage_step)"
      and stop: "\<not> P (real n * voltage_step) < P (real n * voltage_step + voltage_step)"
  shows "\<bar>real n * voltage_step - Vm\<bar> < voltage_step"
proof -
  have h: "0 < voltage_step" by (simp add: voltage_step_def)
  have lo: "Vm - voltage_step < real n * voltage_step"
  proof (rule ccontr)
    assume "\<not> ?thesis"
    then have "real n * voltage_step + voltage_step \<le> Vm" by simp
    moreover have "0 \<le> real n * voltage_step" using h by simp
    ultimately have "P (real n * voltage_step) < P (real n * voltage_step + voltage_step)"
      using u h unfolding unimodal_def by simp
    with stop show False by simp
  qed
  have hi: "real n * voltage_step < Vm + voltage_step"
  proof (cases n)
    case 0
    then show ?thesis using u h unfolding unimodal_def by simp
  next
    case (Suc m)
    then have inc: "P (real m * voltage_step) < P (real m * voltage_step + voltage_step)"
      using up by simp
    show ?thesis
    proof (rule ccontr)
      assume "\<not> ?thesis"
      then have "Vm \<le> real m * voltage_step" using Suc by (simp add: algebra_simps)
      then have "P (real m * voltage_step + voltage_step) < P (real m * voltage_step)"
        using u h unfolding unimodal_def by simp
      with inc show False by simp
    qed
  qed
  from lo hi show ?thesis by (simp add: abs_less_iff)
qed

lemma unimodal_max:
  assumes "unimodal P Vm" "0 \<le> V"
  shows "P V \<le> P Vm"
proof -
  consider "V < Vm" | "V = Vm" | "Vm < V" by linarith
  then show ?thesis
  proof cases
    case 1
    then show ?thesis
      using assms unfolding unimodal_def by (meson less_imp_le order_refl)
  next
    case 2
    then show ?thesis by simp
  next
    case 3
    then show ?thesis
      using assms unfolding unimodal_def by (meson less_imp_le order_refl)
  qed
qed

subsection \<open>The diode power curve is unimodal\<close>

lemma exp_mono_prod:
  fixes a x y :: real
  assumes "0 < a" "0 \<le> x" "x < y"
  shows "exp (a * x) * (1 + a * x) < exp (a * y) * (1 + a * y)"
proof -
  have "a * x < a * y" using assms by simp
  then have e: "exp (a * x) < exp (a * y)" by simp
  have "1 + a * x < 1 + a * y" using assms by simp
  moreover have "0 < 1 + a * x" using assms by (simp add: add_pos_nonneg)
  ultimately show ?thesis
    using e by (intro mult_strict_mono) simp_all
qed

lemma power_slope_deriv:
  "((\<lambda>V. (J_sc - J_0 * (exp (a * V) - 1)) * V) has_real_derivative power_slope J_sc J_0 a V)
     (at V)"
  unfolding power_slope_def
  by (auto intro!: derivative_eq_intros simp: algebra_simps)

lemma power_slope_antimono:
  assumes "0 < J_0" "0 < a" "0 \<le> x" "x < y"
  shows "power_slope J_sc J_0 a y < power_slope J_sc J_0 a x"
  unfolding power_slope_def using exp_mono_prod[OF assms(2,3,4)] assms(1) by simp

lemma power_slope_root:
  assumes "0 < J_sc" "0 < J_0" "0 < a"
  shows "\<exists>Vm>0. power_slope J_sc J_0 a Vm = 0"
proof -
  define b where "b = J_sc / (J_0 * a) + 1"
  have b: "0 < b" unfolding b_def using assms by (simp add: add_pos_pos)
  have "1 \<le> exp (a * b)" using assms b by simp
  moreover have "0 < 1 + a * b" using assms b by (simp add: add_pos_pos)
  ultimately have "1 * (1 + a * b) \<le> exp (a * b) * (1 + a * b)"
    by (intro mult_right_mono) simp_all
  then have "power_slope J_sc J_0 a b \<le> (J_sc + J_0) - J_0 * (1 + a * b)"
    unfolding power_slope_def using assms by simp
  also have "\<dots> = J_sc - J_0 * a * b" by (simp add: algebra_simps)
  also have "\<dots> = - (J_0 * a)" unfolding b_def using assms by (simp add: field_simps)
  also have "\<dots> < 0" using assms by simp
  finally have neg: "power_slope J_sc J_0 a b < 0" .
  have pos: "power_slope J_sc J_0 a 0 = J_sc" by (simp add: power_slope_def)
  have cont: "continuous_on {0..b} (power_slope J_sc J_0 a)"
    unfolding power_slope_def by (intro continuous_intros)
  have "\<exists>x\<ge>0. x \<le> b \<and> power_slope J_sc J_0 a x = 0"
    using IVT2'[of "power_slope J_sc J_0 a" b 0 0] neg pos assms(1) b cont by auto
  then obtain x where x: "0 \<le> x" "power_slope J_sc J_0 a x = 0" by blast
  then have "x \<noteq> 0" using pos assms(1) by auto
  with x show ?thesis by (intro exI[of _ x]) auto
qed

lemma diode_unimodal:
  assumes "0 < J_sc" "0 < J_0" "0 < a"
  shows "\<exists>Vm>0. unimodal (\<lambda>V. (J_sc - J_0 * (exp (a * V) - 1)) * V) Vm"
proof -
  let ?P = "\<lambda>V. (J_sc - J_0 * (exp (a * V) - 1)) * V"
  obtain Vm where Vm: "0 < Vm" "power_slope J_sc J_0 a Vm = 0"
    using power_slope_root[OF assms] by blast
  have cont: "continuous_on {x..y} ?P" for x y
    by (intro continuous_intros)
  have inc: "?P x < ?P y" if "0 \<le> x" "x < y" "y \<le> Vm" for x y
  proof (rule DERIV_pos_imp_increasing_open[OF that(2) _ cont])
    fix t assume t: "x < t" "t < y"
    then have "0 \<le> t" "t < Vm" using that by simp_all
    then have "0 < power_slope J_sc J_0 a t"
      using power_slope_antimono[OF assms(2,3), of t Vm J_sc] Vm(2) by simp
    then show "\<exists>d. (?P has_real_derivative d) (at t) \<and> 0 < d"
      using power_slope_deriv by blast
  qed
  have dec: "?P y < ?P x" if "Vm \<le> x" "x < y" for x y
  proof (rule DERIV_neg_imp_decreasing_open[OF that(2) _ cont])
    fix t assume t: "x < t" "t < y"
    then have "0 \<le> Vm" "Vm < t" using that Vm(1) by simp_all
    then have "power_slope J_sc J_0 a t < 0"
      using power_slope_antimono[OF assms(2,3), of Vm t J_sc] Vm(2) by simp
    then show "\<exists>d. (?P has_real_derivative d) (at t) \<and> d < 0"
      using power_slope_deriv by blast
  qed
  have "unimodal ?P Vm"
    unfolding unimodal_def using Vm(1) inc dec by auto
  with Vm(1) show ?thesis by blast
qed

lemma power_V_unimodal:
  assumes "physical C" "0 < temperature" "0 < J_sc" "0 < J_0"
  shows "\<exists>Vm>0. unimodal (power_V C J_sc J_0 temperature) Vm"
proof -
  define a where "a = const_e C / (const_k C * temperature)"
  have a: "0 < a" unfolding a_def using assms by (simp add: physical_def)
  have "power_V C J_sc J_0 temperature = (\<lambda>V. (J_sc - J_0 * (exp (a * V) - 1)) * V)"
    by (rule ext) (simp add: power_V_def J_def a_def)
  then show ?thesis using diode_unimodal[OF assms(3,4) a] by simp
qed

text \<open>
  C1. For currents \<open>J_sc > 0\<close> and \<open>J_0 > 0\<close> that make the diode power curve unimodal on
  \<open>V \<ge> 0\<close>, with its maximum at \<open>Vm\<close>, the loop shared by slme and calculate_SQ leaves
  at the first voltage \<open>n * 0.001\<close> whose next step does not raise the power, the power
  it reports is the power at that voltage, \<open>Vm\<close> is the voltage of maximum power, and
  the voltage reached is within one step of \<open>Vm\<close>. (Exact real arithmetic.)
\<close>

theorem power_maximization_first_peak:
  assumes "0 < J_sc" "0 < J_0"
      and "unimodal (power_V C J_sc J_0 temperature) Vm"
  shows "\<exists>n. test_voltage_loop (power_V C J_sc J_0 temperature) 0 = Some (real n * voltage_step)
            \<and> max_power (power_V C J_sc J_0 temperature)
                = Some (power_V C J_sc J_0 temperature (real n * voltage_step))
            \<and> (\<forall>m<n. power_V C J_sc J_0 temperature (real m * voltage_step)
                        < power_V C J_sc J_0 temperature (real m * voltage_step + voltage_step))
            \<and> power_V C J_sc J_0 temperature (real n * voltage_step + voltage_step)
                \<le> power_V C J_sc J_0 temperature (real n * voltage_step)
            \<and> (\<forall>V\<ge>0. power_V C J_sc J_0 temperature V \<le> power_V C J_sc J_0 temperature Vm)
            \<and> \<bar>real n * voltage_step - Vm\<bar> \<le> voltage_step"
proof -
  let ?P = "power_V C J_sc J_0 temperature"
  obtain n where up: "\<forall>m<n. ?P (real m * voltage_step) < ?P (real m * voltage_step + voltage_step)"
    and stop: "\<not> ?P (real n * voltage_step) < ?P (real n * voltage_step + voltage_step)"
    using unimodal_first[OF assms(3)] by blast
  have "test_voltage_loop ?P (real 0 * voltage_step) = Some (real n * voltage_step)"
    by (rule loop_from[OF up stop]) simp
  then have loop: "test_voltage_loop ?P 0 = Some (real n * voltage_step)" by simp
  then have mp: "max_power ?P = Some (?P (real n * voltage_step))"
    by (simp add: max_power_def)
  have close: "\<bar>real n * voltage_step - Vm\<bar> \<le> voltage_step"
    using unimodal_close[OF assms(3) up stop] by simp
  have top: "\<forall>V\<ge>0. ?P V \<le> ?P Vm"
    using unimodal_max[OF assms(3)] by blast
  from loop mp up stop top close show ?thesis
    by (intro exI[of _ n]) (simp add: not_less)
qed

theorem power_maximization_first_peak_witness:
  "\<exists>Vm n. unimodal (power_V CODATA 1 1 300) Vm
         \<and> test_voltage_loop (power_V CODATA 1 1 300) 0 = Some (real n * voltage_step)
         \<and> max_power (power_V CODATA 1 1 300) = Some (power_V CODATA 1 1 300 (real n * voltage_step))
         \<and> \<bar>real n * voltage_step - Vm\<bar> \<le> voltage_step"
proof -
  obtain Vm where u: "unimodal (power_V CODATA 1 1 300) Vm"
    using power_V_unimodal[OF CODATA_physical, of 300 1 1] by auto
  have "(0::real) < 1" by simp
  from power_maximization_first_peak[OF this this u] u show ?thesis by blast
qed

section \<open>The absorbance cut-off and the radiative fraction of slme\<close>

text \<open>
  C4. In slme, with \<^verbatim>\<open>cut_off_absorbance_below_direct_allowed_gap\<close> set, the
  interpolated absorbance that enters the integrals of \<open>J_0_r\<close> and \<open>J_sc\<close> is exactly
  zero at every solar wavelength that is not strictly shorter than the wavelength of
  the direct allowed gap, \<open>h c / E_direct\<close> (in nm, as the table is), and so is the
  absorptivity there; at the shorter wavelengths, and at every wavelength when the
  flag is off, it is the value of the interpolant.
\<close>

theorem cutoff_zeroes_absorbance:
  assumes "material_direct_allowed_gap \<noteq> 0"
  shows "\<exists>a. material_interpolated_absorbance C table f material_direct_allowed_gap cut_off = Inr a
            \<and> length a = length (solar_spectra_wavelength table)
            \<and> (\<forall>i<length a.
                  (cut_off \<and> \<not> solar_spectra_wavelength table ! i
                                 < 10 ^ 9 * (const_c C * h_e C / material_direct_allowed_gap)
                     \<longrightarrow> a ! i = 0 \<and> absorbed_by_wavelength thickness a ! i = 0)
                \<and> (\<not> cut_off \<or> solar_spectra_wavelength table ! i
                                 < 10 ^ 9 * (const_c C * h_e C / material_direct_allowed_gap)
                     \<longrightarrow> a ! i = f (solar_spectra_wavelength table ! i)))"
  using assms
  by (auto simp: material_interpolated_absorbance_def absorbed_by_wavelength_def)

theorem cutoff_zeroes_absorbance_witness:
  "\<exists>a. material_interpolated_absorbance CODATA [(500, 1), (2000, 1)] (\<lambda>w. 7) 1 True = Inr a
      \<and> a ! 0 = 7 \<and> a ! 1 = 0
      \<and> material_interpolated_absorbance CODATA [(500, 1), (2000, 1)] (\<lambda>w. 7) 1 False = Inr [7, 7]"
proof -
  have g: "(1::real) \<noteq> 0" by simp
  have lt: "(500::real) < 10 ^ 9 * (const_c CODATA * h_e CODATA / 1)"
    by (simp add: CODATA_def h_e_def)
  have ge: "\<not> (2000::real) < 10 ^ 9 * (const_c CODATA * h_e CODATA / 1)"
    by (simp add: CODATA_def h_e_def)
  obtain a where a: "material_interpolated_absorbance CODATA [(500, 1), (2000, 1)] (\<lambda>w. 7) 1 True = Inr a"
    "length a = length (solar_spectra_wavelength [(500::real, 1::real), (2000, 1)])"
    "\<forall>i<length a.
        (True \<and> \<not> solar_spectra_wavelength [(500, 1), (2000, 1)] ! i
                                 < 10 ^ 9 * (const_c CODATA * h_e CODATA / 1)
                     \<longrightarrow> a ! i = 0 \<and> absorbed_by_wavelength 1 a ! i = 0)
                \<and> (\<not> True \<or> solar_spectra_wavelength [(500, 1), (2000, 1)] ! i
                                 < 10 ^ 9 * (const_c CODATA * h_e CODATA / 1)
                     \<longrightarrow> a ! i = (\<lambda>w. 7) (solar_spectra_wavelength [(500, 1), (2000, 1)] ! i))"
    using cutoff_zeroes_absorbance[OF g, of CODATA "[(500, 1), (2000, 1)]" "\<lambda>w. 7" True 1] by blast
  have len: "length a = 2" using a(2) by (simp add: solar_spectra_wavelength_def)
  have "a ! 0 = 7" using a(3) len lt by (auto simp: solar_spectra_wavelength_def)
  moreover have "a ! 1 = 0" using a(3) len ge by (auto simp: solar_spectra_wavelength_def)
  moreover have "material_interpolated_absorbance CODATA [(500, 1), (2000, 1)] (\<lambda>w. 7) 1 False = Inr [7, 7]"
    by (simp add: material_interpolated_absorbance_def solar_spectra_wavelength_def)
  ultimately show ?thesis using a(1) by blast
qed

text \<open>
  C5. For a temperature \<open>T > 0\<close>, slme computes the radiative fraction as
  \<open>fr = exp (- (E_direct - E_fundamental) / (k_B T))\<close>; when the two gaps are equal
  \<open>fr\<close> is exactly 1 and the saturation current \<open>J_0 = J_0_r / fr\<close> is the radiative
  one, \<open>J_0_r\<close>, as in calculate_SQ with its default \<open>fr = 1\<close>. The division by
  \<open>k_e T\<close> does not raise.
\<close>

theorem radiative_fraction:
  assumes "physical C" "0 < temperature"
  shows "slme_fr C material_direct_allowed_gap material_indirect_gap temperature
           = exp (- (material_direct_allowed_gap - material_indirect_gap) / (k_e C * temperature))
         \<and> slme_fr C gap gap temperature = 1
         \<and> slme_J_0 C simps table temperature absorbed gap gap
             = slme_J_0_r C simps table temperature absorbed
         \<and> k_e C * temperature \<noteq> 0"
proof -
  have fr: "slme_fr C material_direct_allowed_gap material_indirect_gap temperature
           = exp (- (material_direct_allowed_gap - material_indirect_gap) / (k_e C * temperature))"
    unfolding slme_fr_def Let_def by (rule refl)
  have one: "slme_fr C gap gap temperature = 1"
    by (simp add: slme_fr_def)
  have J: "slme_J_0 C simps table temperature absorbed gap gap
             = slme_J_0_r C simps table temperature absorbed"
    by (simp add: slme_J_0_def one)
  have nz: "k_e C * temperature \<noteq> 0"
    using assms by (simp add: k_e_def physical_def)
  from fr one J nz show ?thesis by blast
qed

theorem radiative_fraction_witness:
  "slme_fr CODATA 2 1 300 = exp (- (2 - 1) / (k_e CODATA * 300))
   \<and> slme_fr CODATA 2 2 300 = 1
   \<and> slme_J_0 CODATA (\<lambda>y x. 1) [(500, 1)] 300 [1] 2 2
       = slme_J_0_r CODATA (\<lambda>y x. 1) [(500, 1)] 300 [1]"
proof -
  have T: "(0::real) < 300" by simp
  from radiative_fraction[OF CODATA_physical T, of 2 1 2 "\<lambda>y x. 1" "[(500, 1)]" "[1]"]
  show ?thesis by simp
qed

section \<open>Construction of a DielTensor\<close>

lemma tensor_list_rows:
  assumes "\<forall>r\<in>set re. length r = 6" "\<forall>r\<in>set im. length r = 6"
  shows "\<exists>ts. tensor_list (map to_matrix_star re) (map to_matrix_star im) = Inr ts
              \<and> length ts = min (length re) (length im)"
  using assms
proof (induction re arbitrary: im)
  case Nil
  then show ?case by simp
next
  case (Cons r re)
  show ?case
  proof (cases im)
    case Nil
    then show ?thesis by simp
  next
    case (Cons i im')
    obtain r1 r2 r3 r4 r5 r6 where r: "r = [r1, r2, r3, r4, r5, r6]"
      using Cons.prems(1) by (auto simp: length_Suc_conv eval_nat_numeral)
    obtain i1 i2 i3 i4 i5 i6 where i: "i = [i1, i2, i3, i4, i5, i6]"
      using Cons.prems(2) Cons by (auto simp: length_Suc_conv eval_nat_numeral)
    obtain ts where "tensor_list (map to_matrix_star re) (map to_matrix_star im') = Inr ts"
      "length ts = min (length re) (length im')"
      using Cons.IH[of im'] Cons.prems Cons by auto
    then show ?thesis using Cons r i by simp
  qed
qed

lemma tensor_list_not_ImportError:
  "tensor_list rs is = Inl err \<Longrightarrow> (\<forall>r\<in>set rs. r \<noteq> Inl ImportError) \<Longrightarrow>
   (\<forall>i\<in>set is. i \<noteq> Inl ImportError) \<Longrightarrow> err \<noteq> ImportError"
  by (induction rs "is" rule: tensor_list.induct) (auto split: sum.splits)

lemma unpacked_not_ImportError: "\<forall>r\<in>set (unpacked t). r \<noteq> Inl ImportError"
proof (cases t)
  case (Rows rs)
  have "to_matrix_star r \<noteq> Inl ImportError" for r :: "real list"
    by (cases r rule: to_matrix_star.cases) simp_all
  then show ?thesis using Rows by auto
next
  case (Tensors ts)
  then show ?thesis by auto
qed

text \<open>
  C9. Constructing a DielTensor raises the format error (Python's \<^verbatim>\<open>ImportError\<close>,
  "Format of dielectric data not recognized.") exactly when the data is neither a
  tuple of length 3 nor a tuple of length 2, a tuple of length 4 for one. A 3-tuple of
  energies, real 6-tuples and imaginary 6-tuples, and every 2-tuple of energies and a
  tensor array, construct the object without raising.
\<close>

theorem dielectric_data_format:
  "(DielTensor_init d = Inl ImportError
      \<longleftrightarrow> \<not> (is_tuple d \<and> len d = 3) \<and> \<not> (is_tuple d \<and> len d = 2))
   \<and> ((\<forall>r\<in>set re. length r = 6) \<and> (\<forall>r\<in>set im. length r = 6)
        \<longrightarrow> (\<exists>ts. DielTensor_init (PyTuple es [Rows re, Rows im])
                     = Inr \<lparr> energies = es, dielectric_tensor = Tensors ts \<rparr>
                 \<and> length ts = min (length re) (length im)))
   \<and> DielTensor_init (PyTuple es [t]) = Inr \<lparr> energies = es, dielectric_tensor = t \<rparr>"
proof (intro conjI impI)
  show "DielTensor_init d = Inl ImportError
      \<longleftrightarrow> \<not> (is_tuple d \<and> len d = 3) \<and> \<not> (is_tuple d \<and> len d = 2)"
  proof (cases d)
    case (PyTuple es' items)
    show ?thesis
    proof (cases "length items = 2")
      case True
      have "tensor_list (unpacked (items ! 0)) (unpacked (items ! 1)) \<noteq> Inl ImportError"
        using tensor_list_not_ImportError unpacked_not_ImportError by blast
      then show ?thesis using PyTuple True
        by (auto simp: DielTensor_init_def parse_dielectric_data_def split: sum.splits)
    next
      case False
      then show ?thesis using PyTuple
        by (auto simp: DielTensor_init_def parse_dielectric_data_def split: sum.splits)
    qed
  next
    case EmptyTuple
    then show ?thesis by (simp add: DielTensor_init_def parse_dielectric_data_def)
  next
    case NotTuple
    then show ?thesis by (simp add: DielTensor_init_def parse_dielectric_data_def)
  qed
next
  assume "(\<forall>r\<in>set re. length r = 6) \<and> (\<forall>r\<in>set im. length r = 6)"
  then obtain ts where "tensor_list (map to_matrix_star re) (map to_matrix_star im) = Inr ts"
      "length ts = min (length re) (length im)"
    using tensor_list_rows by blast
  then show "\<exists>ts. DielTensor_init (PyTuple es [Rows re, Rows im])
                     = Inr \<lparr> energies = es, dielectric_tensor = Tensors ts \<rparr>
                 \<and> length ts = min (length re) (length im)"
    by (simp add: DielTensor_init_def parse_dielectric_data_def)
next
  show "DielTensor_init (PyTuple es [t]) = Inr \<lparr> energies = es, dielectric_tensor = t \<rparr>"
    by (simp add: DielTensor_init_def parse_dielectric_data_def)
qed

theorem dielectric_data_format_witness:
  "DielTensor_init (PyTuple [1, 2] [Rows [], Rows [], Rows []]) = Inl ImportError
   \<and> (\<exists>ts. DielTensor_init (PyTuple [1] [Rows [[1, 2, 3, 4, 5, 6]], Rows [[6, 5, 4, 3, 2, 1]]])
              = Inr \<lparr> energies = [1], dielectric_tensor = Tensors ts \<rparr> \<and> length ts = 1)
   \<and> DielTensor_init (PyTuple [1] [Tensors []]) = Inr \<lparr> energies = [1], dielectric_tensor = Tensors [] \<rparr>"
  using dielectric_data_format[of "PyTuple [1, 2] [Rows [], Rows [], Rows []]"
          "[[1, 2, 3, 4, 5, 6]]" "[[6, 5, 4, 3, 2, 1]]" "[1]" "Tensors []"]
  by simp

section \<open>The spectrum constructor and the absorption coefficient\<close>

lemma np_broadcast_same_length:
  "length a = length b \<Longrightarrow> np_broadcast f a b = Inr (map2 f a b)"
  by (simp add: np_broadcast_def)

lemma np_broadcast_not_NotImplemented: "np_broadcast f a b \<noteq> Inl NotImplementedError"
  by (simp add: np_broadcast_def)

lemma from_data_bad_variable:
  assumes "variable \<noteq> ''energy''" "variable \<noteq> ''wavelength''"
  shows "from_data C data variable spectrum_units = Inl NotImplementedError"
  using assms by (simp add: from_data_def)

lemma from_data_energy:
  "from_data C (d0, d1) ''energy'' spectrum_units =
     (if spectrum_units = ''flux'' then
        Inr \<lparr> spectrum_energy = d0, spectrum_photon_flux = d1 \<rparr>
      else if spectrum_units = ''power'' then
        (case np_broadcast (\<lambda>x y. x / y) d1 (map (\<lambda>x. const_e C * x) d0) of
           Inl err \<Rightarrow> Inl err
         | Inr photon_flux \<Rightarrow> Inr \<lparr> spectrum_energy = d0, spectrum_photon_flux = photon_flux \<rparr>)
      else Inl NotImplementedError)"
  by (simp add: from_data_def)

lemma from_data_wavelength:
  assumes "length d0 = length d1"
  shows "\<exists>energy spectrum. length energy = length d0 \<and> length spectrum = length d0 \<and>
     from_data C (d0, d1) ''wavelength'' spectrum_units =
     (if spectrum_units = ''flux'' then
        Inr \<lparr> spectrum_energy = energy, spectrum_photon_flux = spectrum \<rparr>
      else if spectrum_units = ''power'' then
        (case np_broadcast (\<lambda>x y. x / y) spectrum (map (\<lambda>x. const_e C * x) energy) of
           Inl err \<Rightarrow> Inl err
         | Inr photon_flux \<Rightarrow> Inr \<lparr> spectrum_energy = energy, spectrum_photon_flux = photon_flux \<rparr>)
      else Inl NotImplementedError)"
proof -
  define energy where "energy = rev (map (\<lambda>w. h_e C * const_c C / w) d0)"
  define spectrum where "spectrum = map2 (\<lambda>x y. x / y)
                      (map (\<lambda>s. s * h_e C * const_c C) (rev d1)) (map (\<lambda>x. x ^ 2) energy)"
  have len: "length energy = length d0" "length spectrum = length d0"
    using assms by (simp_all add: energy_def spectrum_def)
  have bc: "np_broadcast (\<lambda>x y. x / y)
                      (map (\<lambda>s. s * h_e C * const_c C) (rev d1)) (map (\<lambda>x. x ^ 2) energy)
            = Inr spectrum"
    unfolding spectrum_def using assms len by (intro np_broadcast_same_length) simp
  have "from_data C (d0, d1) ''wavelength'' spectrum_units =
     (if spectrum_units = ''flux'' then
        Inr \<lparr> spectrum_energy = energy, spectrum_photon_flux = spectrum \<rparr>
      else if spectrum_units = ''power'' then
        (case np_broadcast (\<lambda>x y. x / y) spectrum (map (\<lambda>x. const_e C * x) energy) of
           Inl err \<Rightarrow> Inl err
         | Inr photon_flux \<Rightarrow> Inr \<lparr> spectrum_energy = energy, spectrum_photon_flux = photon_flux \<rparr>)
      else Inl NotImplementedError)"
    using bc unfolding from_data_def energy_def[symmetric] by (simp add: Let_def energy_def[symmetric])
  with len show ?thesis by blast
qed

lemma from_data_only_if:
  assumes "from_data C data variable spectrum_units = Inl NotImplementedError"
  shows "variable \<notin> {''energy'', ''wavelength''} \<or> spectrum_units \<notin> {''flux'', ''power''}"
proof (rule ccontr)
  assume "\<not> ?thesis"
  then have v: "variable = ''energy'' \<or> variable = ''wavelength''"
    and u: "spectrum_units = ''flux'' \<or> spectrum_units = ''power''" by auto
  have nb: "(case np_broadcast f a b of Inl err \<Rightarrow> Inl err | Inr x \<Rightarrow> Inr (g x))
             \<noteq> Inl NotImplementedError" for f a b and g :: "real list \<Rightarrow> EMRadSpectrum"
    using np_broadcast_not_NotImplemented[of f a b] by (auto split: sum.splits)
  obtain d0 d1 where d: "data = (d0, d1)" by (cases data)
  from v show False
  proof
    assume "variable = ''energy''"
    then show False using assms u nb d by (auto simp: from_data_energy)
  next
    assume w: "variable = ''wavelength''"
    show False
    proof (cases "np_broadcast (\<lambda>x y. x / y)
                      (map (\<lambda>s. s * h_e C * const_c C) (rev d1))
                      (map (\<lambda>x. x ^ 2) (rev (map (\<lambda>w. h_e C * const_c C / w) d0)))")
      case (Inl err)
      then have "from_data C data variable spectrum_units = Inl err"
        using w d by (simp add: from_data_def Let_def)
      with assms have "err = NotImplementedError" by simp
      with Inl show False by (simp add: np_broadcast_not_NotImplemented)
    next
      case (Inr spectrum)
      then show False using assms u nb w d
        by (auto simp: from_data_def Let_def)
    qed
  qed
qed

text \<open>
  C10 (as the code has it). \<^verbatim>\<open>EMRadSpectrum.from_data\<close> raises \<^verbatim>\<open>NotImplementedError\<close>
  only if the variable is outside \<open>{energy, wavelength}\<close> or the units are outside
  \<open>{flux, power}\<close>; for data whose two arrays have one length it raises it for every
  such variable or units, and for every combination inside the two sets it returns a
  spectrum.
\<close>

theorem from_data_not_implemented:
  "(from_data C data variable spectrum_units = Inl NotImplementedError
      \<longrightarrow> variable \<notin> {''energy'', ''wavelength''} \<or> spectrum_units \<notin> {''flux'', ''power''})
   \<and> (length (fst data) = length (snd data) \<longrightarrow>
        (variable \<notin> {''energy'', ''wavelength''} \<or> spectrum_units \<notin> {''flux'', ''power''}
           \<longrightarrow> from_data C data variable spectrum_units = Inl NotImplementedError)
      \<and> (variable \<in> {''energy'', ''wavelength''} \<and> spectrum_units \<in> {''flux'', ''power''}
           \<longrightarrow> (\<exists>s. from_data C data variable spectrum_units = Inr s
                    \<and> length (spectrum_energy s) = length (fst data)
                    \<and> length (spectrum_photon_flux s) = length (fst data))))"
proof (intro conjI impI)
  assume "from_data C data variable spectrum_units = Inl NotImplementedError"
  then show "variable \<notin> {''energy'', ''wavelength''} \<or> spectrum_units \<notin> {''flux'', ''power''}"
    by (rule from_data_only_if)
next
  obtain d0 d1 where d: "data = (d0, d1)" by (cases data)
  assume len: "length (fst data) = length (snd data)"
    and bad: "variable \<notin> {''energy'', ''wavelength''} \<or> spectrum_units \<notin> {''flux'', ''power''}"
  show "from_data C data variable spectrum_units = Inl NotImplementedError"
  proof (cases "variable = ''energy''")
    case True
    then have "spectrum_units \<noteq> ''flux''" "spectrum_units \<noteq> ''power''" using bad by auto
    then show ?thesis using True d by (simp add: from_data_energy)
  next
    case False
    show ?thesis
    proof (cases "variable = ''wavelength''")
      case True
      then have "spectrum_units \<noteq> ''flux''" "spectrum_units \<noteq> ''power''" using bad by auto
      then show ?thesis
        using True d len from_data_wavelength[of d0 d1 C spectrum_units] by auto
    next
      case nw: False
      show ?thesis using False nw by (rule from_data_bad_variable)
    qed
  qed
next
  obtain d0 d1 where d: "data = (d0, d1)" by (cases data)
  assume len: "length (fst data) = length (snd data)"
    and ok: "variable \<in> {''energy'', ''wavelength''} \<and> spectrum_units \<in> {''flux'', ''power''}"
  show "\<exists>s. from_data C data variable spectrum_units = Inr s
                 \<and> length (spectrum_energy s) = length (fst data)
                 \<and> length (spectrum_photon_flux s) = length (fst data)"
  proof (cases "variable = ''energy''")
    case True
    then show ?thesis using ok d len
      by (auto simp: from_data_energy np_broadcast_same_length)
  next
    case False
    then have w: "variable = ''wavelength''" using ok by auto
    obtain energy spectrum where es: "length energy = length d0" "length spectrum = length d0"
      "from_data C (d0, d1) ''wavelength'' spectrum_units =
       (if spectrum_units = ''flux'' then
          Inr \<lparr> spectrum_energy = energy, spectrum_photon_flux = spectrum \<rparr>
        else if spectrum_units = ''power'' then
          (case np_broadcast (\<lambda>x y. x / y) spectrum (map (\<lambda>x. const_e C * x) energy) of
             Inl err \<Rightarrow> Inl err
           | Inr photon_flux \<Rightarrow> Inr \<lparr> spectrum_energy = energy, spectrum_photon_flux = photon_flux \<rparr>)
        else Inl NotImplementedError)"
      using from_data_wavelength[of d0 d1 C spectrum_units] len d by auto
    show ?thesis using ok d w es
      by (auto simp: np_broadcast_same_length)
  qed
qed

theorem from_data_not_implemented_witness:
  "from_data CODATA ([1, 2], [3, 4]) ''frequency'' ''flux'' = Inl NotImplementedError
   \<and> from_data CODATA ([1, 2], [3, 4]) ''energy'' ''irradiance'' = Inl NotImplementedError
   \<and> (\<exists>s. from_data CODATA ([1, 2], [3, 4]) ''wavelength'' ''power'' = Inr s)
   \<and> (\<exists>s. from_data CODATA ([1, 2], [3, 4]) ''energy'' ''flux'' = Inr s)"
  using from_data_not_implemented[of CODATA "([1, 2], [3, 4])" "''frequency''" "''flux''"]
        from_data_not_implemented[of CODATA "([1, 2], [3, 4])" "''energy''" "''irradiance''"]
        from_data_not_implemented[of CODATA "([1, 2], [3, 4])" "''wavelength''" "''power''"]
        from_data_not_implemented[of CODATA "([1, 2], [3, 4])" "''energy''" "''flux''"]
  by auto

text \<open>
  Without the equal lengths neither half holds: for a wavelength grid of two points and
  a spectrum of three, numpy's division of the flipped spectrum by the squared energies
  cannot broadcast and raises \<^verbatim>\<open>ValueError\<close>, before the units are looked at. So units
  outside \<open>{flux, power}\<close> do not give \<^verbatim>\<open>NotImplementedError\<close> there, and a
  combination inside the two sets does not return.
\<close>

theorem from_data_value_error:
  "from_data CODATA ([1, 2], [3, 4, 5]) ''wavelength'' ''irradiance'' = Inl ValueError
   \<and> from_data CODATA ([1, 2], [3, 4, 5]) ''wavelength'' ''flux'' = Inl ValueError"
  by (simp add: from_data_def np_broadcast_def)

lemma np_broadcast_pointwise:
  assumes "np_broadcast f a b = Inr r" "\<forall>x\<in>set a. \<forall>y\<in>set b. Q (f x y)"
  shows "\<forall>z\<in>set r. Q z"
proof -
  consider "length a = length b" | "length a \<noteq> length b" "length a = 1"
    | "length a \<noteq> length b" "length a \<noteq> 1" "length b = 1"
    using assms(1) by (auto simp: np_broadcast_def split: if_splits)
  then show ?thesis
  proof cases
    case 1
    then have "r = map2 f a b" using assms(1) by (simp add: np_broadcast_def)
    then show ?thesis using assms(2) by (auto dest: set_zip_leftD set_zip_rightD)
  next
    case 2
    then have "r = map (f (hd a)) b" and "hd a \<in> set a"
      using assms(1) by (auto simp: np_broadcast_def length_Suc_conv)
    then show ?thesis using assms(2) by auto
  next
    case 3
    then have "r = map (\<lambda>x. f x (hd b)) a" and "hd b \<in> set b"
      using assms(1) by (auto simp: np_broadcast_def length_Suc_conv)
    then show ?thesis using assms(2) by auto
  qed
qed

lemma Im_csqrt_nonneg: "0 \<le> Im v \<Longrightarrow> 0 \<le> Im (csqrt v)"
  by (cases "Im v = 0") (simp_all add: sgn_real_def complex_Re_le_cmod)

text \<open>
  C8. For a DielTensor whose energies are non-negative and whose dielectric function
  has a non-negative imaginary part at every sample, every value
  \<^verbatim>\<open>absorption_coefficient\<close> returns is non-negative: the principal square root has a
  non-negative imaginary part there, and with one tensor per energy the result is
  \<open>2 E Im (sqrt (eps E)) / (hbar / e * c)\<close> at every grid point.
\<close>

theorem absorption_coefficient_nonneg:
  assumes "physical C"
      and "\<forall>E\<in>set (energies D). 0 \<le> E"
      and "dielectric_function eigvals D = Inr vs"
      and "\<forall>v\<in>set vs. 0 \<le> Im v"
  shows "(\<forall>a. absorption_coefficient C eigvals D = Inr a \<longrightarrow> (\<forall>x\<in>set a. 0 \<le> x))
       \<and> (\<forall>v\<in>set vs. 0 \<le> Im (csqrt v))
       \<and> (length (energies D) = length vs \<longrightarrow>
            absorption_coefficient C eigvals D
              = Inr (map2 (\<lambda>E v. 2 * E * Im (csqrt v) / (const_hbar C / const_e C * const_c C))
                      (energies D) vs))"
proof (intro conjI allI impI)
  have den: "0 < const_hbar C / const_e C * const_c C"
    using assms(1) by (simp add: physical_def)
  have k: "\<forall>x\<in>set (map (\<lambda>v. Im (csqrt v)) vs). 0 \<le> x"
    using assms(4) Im_csqrt_nonneg by auto
  have E2: "\<forall>x\<in>set (map (\<lambda>x. 2 * x) (energies D)). 0 \<le> x"
    using assms(2) by auto
  show "\<forall>v\<in>set vs. 0 \<le> Im (csqrt v)" using assms(4) Im_csqrt_nonneg by auto
  {
    fix a assume a: "absorption_coefficient C eigvals D = Inr a"
    then obtain b where b: "np_broadcast (\<lambda>x y. x * y) (map (\<lambda>x. 2 * x) (energies D))
                                (map (\<lambda>v. Im (csqrt v)) vs) = Inr b"
      and ab: "a = map (\<lambda>x. x / (const_hbar C / const_e C * const_c C)) b"
      using assms(3) by (auto simp: absorption_coefficient_def Let_def split: sum.splits)
    have "\<forall>x\<in>set (map (\<lambda>x. 2 * x) (energies D)).
            \<forall>y\<in>set (map (\<lambda>v. Im (csqrt v)) vs). 0 \<le> x * y"
      using k E2 by (meson mult_nonneg_nonneg)
    then have "\<forall>x\<in>set b. 0 \<le> x"
      by (rule np_broadcast_pointwise[OF b])
    then have "0 \<le> x / (const_hbar C / const_e C * const_c C)" if "x \<in> set b" for x
      using that divide_nonneg_pos[OF _ den] by blast
    then show "\<forall>x\<in>set a. 0 \<le> x"
      unfolding ab by (simp del: times_divide_eq_left times_divide_eq_right divide_divide_eq_left)
  }
  {
    assume len: "length (energies D) = length vs"
    show "absorption_coefficient C eigvals D
              = Inr (map2 (\<lambda>E v. 2 * E * Im (csqrt v) / (const_hbar C / const_e C * const_c C))
                      (energies D) vs)"
      using assms(3) len
      by (simp add: absorption_coefficient_def Let_def np_broadcast_def zip_map1 zip_map2 split_def)
  }
qed

theorem absorption_coefficient_nonneg_witness:
  "\<exists>a. absorption_coefficient CODATA diag_eigvals
          \<lparr> energies = [2], dielectric_tensor = Tensors [to_matrix \<i> \<i> \<i> 0 0 0] \<rparr> = Inr a
      \<and> length a = 1 \<and> 0 \<le> a ! 0"
proof -
  let ?eig = "diag_eigvals"
  let ?D = "\<lparr> energies = [2], dielectric_tensor = Tensors [to_matrix \<i> \<i> \<i> 0 0 0] \<rparr>"
  have E: "\<forall>E\<in>set (energies ?D). 0 \<le> E" by simp
  have df: "dielectric_function ?eig ?D = Inr [\<i>]"
    by (simp add: to_matrix_def mean3_def diag_eigvals_def)
  have im: "\<forall>v\<in>set [\<i>]. 0 \<le> Im v" by simp
  have len: "length (energies ?D) = length [\<i>]" by simp
  from absorption_coefficient_nonneg[OF CODATA_physical E df im] len
  have res: "absorption_coefficient CODATA ?eig ?D
      = Inr (map2 (\<lambda>E v. 2 * E * Im (csqrt v) / (const_hbar CODATA / const_e CODATA * const_c CODATA))
               (energies ?D) [\<i>])"
    and nn: "\<forall>a. absorption_coefficient CODATA ?eig ?D = Inr a \<longrightarrow> (\<forall>x\<in>set a. 0 \<le> x)"
    by blast+
  let ?a = "map2 (\<lambda>E v. 2 * E * Im (csqrt v) / (const_hbar CODATA / const_e CODATA * const_c CODATA))
               (energies ?D) [\<i>]"
  have "\<forall>x\<in>set ?a. 0 \<le> x" using nn res by blast
  then have "0 \<le> ?a ! 0" by simp
  moreover have "length ?a = 1" by simp
  ultimately show ?thesis using res by blast
qed

section \<open>Truncation at the band gap in calculate_SQ\<close>

lemma planck_flux_form:
  fixes h c t X :: real
  assumes "0 < h" "0 < c" "0 < t"
  shows "(2 * h * c ^ 2 / t ^ 5) * (1 / (exp X - 1)) * (t / (h * c)) = (2 * c / t ^ 4) / (exp X - 1)"
proof -
  define a where "a = 2 * h * c ^ 2 / t ^ 5"
  define b where "b = 1 / (exp X - 1)"
  define d where "d = t / (h * c)"
  have t5: "t ^ 5 = t * t ^ 4" by (simp add: eval_nat_numeral)
  have c2: "c ^ 2 = c * c" by (simp add: power2_eq_square)
  have ad: "a * d = 2 * c / t ^ 4"
    unfolding a_def d_def t5 c2 using assms by simp
  have "a * b * d = (a * d) * b" by (simp add: mult.assoc mult.commute)
  also have "\<dots> = (2 * c / t ^ 4) * b" by (simp only: ad)
  also have "\<dots> = (2 * c / t ^ 4) / (exp X - 1)" unfolding b_def by simp
  finally show ?thesis unfolding a_def b_def d_def .
qed

lemma planck_midpoint:
  fixes F X1 Xg :: real
  assumes "0 < F" "0 < X1" "X1 + 15 \<le> Xg"
  shows "F / (exp Xg - 1) < ((16 / 81 * F) / (exp X1 - 1)) / 2"
proof -
  define E1 where "E1 = exp X1"
  have E1: "1 < E1" unfolding E1_def using assms(2) by simp
  have "exp (X1 + 15) \<le> exp Xg" using assms(3) by simp
  moreover have "exp (X1 + 15) = E1 * exp 15" by (simp add: E1_def exp_add)
  moreover have "(16::real) \<le> exp 15" using exp_ge_add_one_self[of 15] by simp
  then have "E1 * 16 \<le> E1 * exp 15" using E1 by (intro mult_left_mono) simp_all
  ultimately have "16 * E1 \<le> exp Xg" by simp
  then have den: "16 * E1 - 1 \<le> exp Xg - 1" by simp
  have pos: "0 < 16 * E1 - 1" using E1 by simp
  have pos': "0 < exp Xg - 1" using den pos by linarith
  have F: "0 < F" by (rule assms(1))
  have "F / (exp Xg - 1) \<le> F / (16 * E1 - 1)"
    using den pos pos' F by (intro divide_left_mono mult_pos_pos) simp_all
  also have "\<dots> < F * ((8 / 81) / (E1 - 1))"
  proof -
    have "81 * (E1 - 1) < 8 * (16 * E1 - 1)" using E1 by simp
    then have "1 / (16 * E1 - 1) < (8 / 81) / (E1 - 1)"
      using E1 pos by (simp add: divide_simps)
    then have "F * (1 / (16 * E1 - 1)) < F * ((8 / 81) / (E1 - 1))"
      using F by (rule mult_strict_left_mono)
    then show ?thesis by simp
  qed
  also have "\<dots> = ((16 / 81 * F) / (E1 - 1)) / 2"
    using E1 by (simp add: field_simps)
  also have "\<dots> = ((16 / 81 * F) / (exp X1 - 1)) / 2"
    unfolding E1_def by (rule refl)
  finally show ?thesis .
qed

lemma example_wavelengths:
  "solar_spectra_wavelength_meters example_table = [5 / 10 ^ 7, 15 / 10 ^ 7]"
  by (simp add: example_table_def solar_spectra_wavelength_meters_def solar_spectra_wavelength_def)

lemma example_bandgap_wavelength: "bandgap_wavelength CODATA example_gap = 1 / 10 ^ 6"
proof -
  have "h_e CODATA * const_c CODATA \<noteq> 0" by (simp add: h_e_def CODATA_def)
  then show ?thesis by (simp add: bandgap_wavelength_def example_gap_def)
qed

lemma example_gap_nonzero: "example_gap \<noteq> 0"
  by (simp add: example_gap_def h_e_def CODATA_def)

lemma blackbody_photon_flux_planck:
  "blackbody_photon_flux C temperature table
     = map (planck_flux C temperature) (solar_spectra_wavelength_meters table)"
  unfolding blackbody_photon_flux_def blackbody_irradiance_def planck_flux_def
  by (simp add: zip_map1 zip_same_conv_map)

lemma bandgap_blackbody_planck:
  "bandgap_blackbody C temperature bandgap_ev
     = planck_flux C temperature (bandgap_wavelength C bandgap_ev)"
  by (simp add: bandgap_blackbody_def planck_flux_def)

lemma planck_flux_CODATA:
  assumes "0 < wm"
  shows "planck_flux CODATA 300 wm
           = (2 * const_c CODATA / wm ^ 4)
             / (exp (const_h CODATA * const_c CODATA / (wm * const_k CODATA * 300)) - 1)"
  unfolding planck_flux_def
  by (rule planck_flux_form) (simp_all add: CODATA_def assms)

lemma example_exponents:
  "0 < const_h CODATA * const_c CODATA / (15 / 10 ^ 7 * const_k CODATA * 300)"
  "const_h CODATA * const_c CODATA / (15 / 10 ^ 7 * const_k CODATA * 300) + 15
     \<le> const_h CODATA * const_c CODATA / (1 / 10 ^ 6 * const_k CODATA * 300)"
  by (simp_all add: CODATA_def)

lemma example_planck_below_chord:
  "planck_flux CODATA 300 (1 / 10 ^ 6)
     < (planck_flux CODATA 300 (5 / 10 ^ 7) + planck_flux CODATA 300 (15 / 10 ^ 7)) / 2"
proof -
  let ?X = "\<lambda>wm. const_h CODATA * const_c CODATA / (wm * const_k CODATA * 300)"
  define F where "F = 2 * const_c CODATA / (1 / 10 ^ 6) ^ 4"
  have F: "0 < F" by (simp add: F_def CODATA_def)
  have F1: "2 * const_c CODATA / (15 / 10 ^ 7) ^ 4 = 16 / 81 * F"
    by (simp add: F_def power_divide)
  have Bg: "planck_flux CODATA 300 (1 / 10 ^ 6) = F / (exp (?X (1 / 10 ^ 6)) - 1)"
    unfolding F_def by (rule planck_flux_CODATA) simp
  have B1: "planck_flux CODATA 300 (15 / 10 ^ 7) = (16 / 81 * F) / (exp (?X (15 / 10 ^ 7)) - 1)"
    unfolding F1[symmetric] by (rule planck_flux_CODATA) simp
  have B0: "0 < planck_flux CODATA 300 (5 / 10 ^ 7)"
  proof -
    have "0 < ?X (5 / 10 ^ 7)" by (simp add: CODATA_def)
    then have "0 < exp (?X (5 / 10 ^ 7)) - 1" by simp
    moreover have "0 < 2 * const_c CODATA / (5 / 10 ^ 7) ^ 4" by (simp add: CODATA_def)
    ultimately have "0 < (2 * const_c CODATA / (5 / 10 ^ 7) ^ 4) / (exp (?X (5 / 10 ^ 7)) - 1)"
      by (rule divide_pos_pos[rotated])
    moreover have "planck_flux CODATA 300 (5 / 10 ^ 7)
        = (2 * const_c CODATA / (5 / 10 ^ 7) ^ 4) / (exp (?X (5 / 10 ^ 7)) - 1)"
      by (rule planck_flux_CODATA) simp
    ultimately show ?thesis by simp
  qed
  have "planck_flux CODATA 300 (1 / 10 ^ 6) < planck_flux CODATA 300 (15 / 10 ^ 7) / 2"
    unfolding Bg B1 by (rule planck_midpoint[OF F example_exponents])
  with B0 show ?thesis by simp
qed

text \<open>
  The boundary sample of the blackbody array is not the linear interpolation of the
  blackbody grid: on the table of the example, at 300 K and a gap at 1000 nm, the two
  differ.
\<close>

theorem blackbody_boundary_not_interpolated:
  "interp (bandgap_wavelength CODATA example_gap)
          (solar_spectra_wavelength_meters example_table)
          (blackbody_photon_flux CODATA 300 example_table)
   \<noteq> Inr (last (integration_blackbody CODATA example_table 300 example_gap))"
proof -
  let ?b0 = "planck_flux CODATA 300 (5 / 10 ^ 7)"
  let ?b1 = "planck_flux CODATA 300 (15 / 10 ^ 7)"
  have bb: "blackbody_photon_flux CODATA 300 example_table = [?b0, ?b1]"
    by (simp add: blackbody_photon_flux_planck example_wavelengths)
  have "interp (1 / 10 ^ 6) [5 / 10 ^ 7, 15 / 10 ^ 7] [?b0, ?b1]
          = Inr ((?b1 - ?b0) / (15 / 10 ^ 7 - 5 / 10 ^ 7) * (1 / 10 ^ 6 - 5 / 10 ^ 7) + ?b0)"
    by (simp add: interp_def)
  also have "(?b1 - ?b0) / (15 / 10 ^ 7 - 5 / 10 ^ 7) * (1 / 10 ^ 6 - 5 / 10 ^ 7) + ?b0
          = (?b0 + ?b1) / 2"
    by (simp add: field_simps)
  finally have lhs: "interp (bandgap_wavelength CODATA example_gap)
          (solar_spectra_wavelength_meters example_table)
          (blackbody_photon_flux CODATA 300 example_table) = Inr ((?b0 + ?b1) / 2)"
    by (simp only: example_bandgap_wavelength example_wavelengths bb)
  have rhs: "last (integration_blackbody CODATA example_table 300 example_gap)
          = planck_flux CODATA 300 (1 / 10 ^ 6)"
    by (simp add: integration_blackbody_def bandgap_blackbody_planck example_bandgap_wavelength)
  show ?thesis
    unfolding lhs rhs using example_planck_below_chord by simp
qed

lemma searchsorted_take:
  "take (searchsorted a v) a = takeWhile (\<lambda>x. x < v) a"
  by (simp add: searchsorted_def takeWhile_eq_take[symmetric])

lemma searchsorted_filter:
  assumes "sorted a"
  shows "take (searchsorted a v) a = filter (\<lambda>x. x < v) a"
  unfolding searchsorted_take using assms
proof (induction a)
  case Nil
  then show ?case by simp
next
  case (Cons x xs)
  show ?case
  proof (cases "x < v")
    case True
    then show ?thesis using Cons by simp
  next
    case False
    then have "\<forall>y\<in>set xs. \<not> y < v" using Cons.prems by auto
    then have "filter (\<lambda>x. x < v) xs = []" by (simp add: filter_empty_conv)
    then show ?thesis using False by simp
  qed
qed

lemma searchsorted_below:
  "i < searchsorted a v \<Longrightarrow> a ! i < v"
  unfolding searchsorted_def
  by (metis nth_mem takeWhile_nth set_takeWhileD)

lemma searchsorted_above:
  assumes "sorted a" "searchsorted a v \<le> i" "i < length a"
  shows "v \<le> a ! i"
proof -
  let ?n = "searchsorted a v"
  have n: "?n < length a" using assms by simp
  have "\<not> a ! ?n < v"
    unfolding searchsorted_def using n nth_length_takeWhile searchsorted_def by metis
  moreover have "a ! ?n \<le> a ! i"
    using assms by (simp add: sorted_nth_mono)
  ultimately show ?thesis by simp
qed

lemma interp_from_linear:
  assumes "sorted_wrt (<) (map fst (p # ps))" "fst p \<le> x" "x \<le> fst (last (p # ps))"
  shows "length (takeWhile (\<lambda>q. fst q < x) (p # ps)) < length (p # ps)
       \<and> (fst ((p # ps) ! length (takeWhile (\<lambda>q. fst q < x) (p # ps))) = x \<longrightarrow>
            interp_from x p ps = snd ((p # ps) ! length (takeWhile (\<lambda>q. fst q < x) (p # ps))))
       \<and> (x < fst ((p # ps) ! length (takeWhile (\<lambda>q. fst q < x) (p # ps))) \<longrightarrow>
            0 < length (takeWhile (\<lambda>q. fst q < x) (p # ps))
            \<and> interp_from x p ps =
                (snd ((p # ps) ! length (takeWhile (\<lambda>q. fst q < x) (p # ps)))
                  - snd ((p # ps) ! (length (takeWhile (\<lambda>q. fst q < x) (p # ps)) - 1)))
                / (fst ((p # ps) ! length (takeWhile (\<lambda>q. fst q < x) (p # ps)))
                  - fst ((p # ps) ! (length (takeWhile (\<lambda>q. fst q < x) (p # ps)) - 1)))
                * (x - fst ((p # ps) ! (length (takeWhile (\<lambda>q. fst q < x) (p # ps)) - 1)))
                + snd ((p # ps) ! (length (takeWhile (\<lambda>q. fst q < x) (p # ps)) - 1)))"
  using assms
proof (induction ps arbitrary: p)
  case Nil
  obtain x0 y0 where p: "p = (x0, y0)" by (cases p)
  from Nil p have "x = x0" by simp
  then show ?case using p by simp
next
  case (Cons q qs)
  obtain x0 y0 where p: "p = (x0, y0)" by (cases p)
  obtain x1 y1 where q: "q = (x1, y1)" by (cases q)
  show ?case
  proof (cases "x \<le> x0")
    case True
    then have "x = x0" using Cons.prems p by simp
    then show ?thesis using p q by simp
  next
    case False
    then have gt: "x0 < x" by simp
    show ?thesis
    proof (cases "x < x1")
      case True
      then show ?thesis using gt p q by simp
    next
      case False
      then have ge: "x1 \<le> x" by simp
      have s: "sorted_wrt (<) (map fst (q # qs))" using Cons.prems(1) by simp
      have l: "x \<le> fst (last (q # qs))" using Cons.prems(3) by simp
      have f: "fst q \<le> x" using ge q by simp
      note IH = Cons.IH[OF s f l]
      have eq: "interp_from x p (q # qs) = interp_from x q qs"
        using gt False p q by simp
      have tw: "length (takeWhile (\<lambda>q. fst q < x) (p # q # qs))
                = Suc (length (takeWhile (\<lambda>q. fst q < x) (q # qs)))"
        using gt p by simp
      show ?thesis
        unfolding tw eq using IH
        by (cases "length (takeWhile (\<lambda>q. fst q < x) (q # qs))") auto
    qed
  qed
qed

lemma wavelength_flux_length:
  "length (solar_spectra_photon_flux C table) = length (solar_spectra_wavelength_meters table)"
  "length (solar_spectra_wavelength_meters table) = length table"
  "length (blackbody_photon_flux C temperature table) = length table"
  by (simp_all add: solar_spectra_photon_flux_def solar_spectra_wavelength_meters_def
        solar_spectra_irradiance_def solar_spectra_wavelength_def blackbody_photon_flux_def
        blackbody_irradiance_def)

lemma interp_linear:
  assumes "sorted_wrt (<) xp" "length xp = length fp" "xp \<noteq> []" "hd xp \<le> x" "x \<le> last xp"
  shows "searchsorted xp x < length xp
       \<and> (\<exists>b. interp x xp fp = Inr b
             \<and> (xp ! searchsorted xp x = x \<longrightarrow> b = fp ! searchsorted xp x)
             \<and> (x < xp ! searchsorted xp x \<longrightarrow>
                  0 < searchsorted xp x
                  \<and> b = (fp ! searchsorted xp x - fp ! (searchsorted xp x - 1))
                        / (xp ! searchsorted xp x - xp ! (searchsorted xp x - 1))
                        * (x - xp ! (searchsorted xp x - 1))
                        + fp ! (searchsorted xp x - 1)))"
proof -
  let ?zs = "zip xp fp"
  let ?n = "searchsorted xp x"
  obtain p ps where zs: "?zs = p # ps"
    using assms(2,3) by (cases xp; cases fp) auto
  have m: "map fst ?zs = xp" using assms(2) by simp
  have n: "length (takeWhile (\<lambda>q. fst q < x) ?zs) = ?n"
  proof -
    have "takeWhile (\<lambda>a. a < x) (map fst ?zs) = map fst (takeWhile ((\<lambda>a. a < x) \<circ> fst) ?zs)"
      by (rule takeWhile_map)
    then have "length (takeWhile (\<lambda>a. a < x) xp) = length (takeWhile ((\<lambda>a. a < x) \<circ> fst) ?zs)"
      using m by simp
    then show ?thesis by (simp add: searchsorted_def comp_def)
  qed
  have s: "sorted_wrt (<) (map fst (p # ps))" using assms(1) m zs by simp
  have h: "fst p \<le> x" using assms(4) m zs by (metis list.sel(1) list.simps(9))
  have lm: "last (map fst (p # ps)) = fst (last (p # ps))" by (rule last_map) simp
  have mp: "map fst (p # ps) = xp" using m zs by simp
  have "last xp = fst (last (p # ps))" using lm unfolding mp .
  then have l: "x \<le> fst (last (p # ps))" using assms(5) by simp
  note L = interp_from_linear[OF s h l, unfolded zs[symmetric] n]
  have lt: "?n < length xp" using L assms(2) by simp
  have nth: "?zs ! i = (xp ! i, fp ! i)" if "i < length xp" for i
    using that assms(2) by simp
  have n1: "?n - Suc 0 < length xp" using lt by simp
  have I: "interp x xp fp = Inr (interp_from x p ps)"
    using assms(2) zs by (simp add: interp_def)
  show ?thesis
    using L lt I by (simp add: nth[OF lt] nth[OF n1])
qed

text \<open>
  C6 (as the code has it). In calculate_SQ, for positive constants, a positive
  temperature, an ascending grid of positive wavelengths and a band gap whose
  wavelength \<open>lam = h c / E_g\<close> lies within the grid, the integration arrays are the
  grid samples at the wavelengths below \<open>lam\<close> followed by one sample at \<open>lam\<close> itself.
  For the solar photon flux that sample is the linear interpolation between the two
  grid neighbours of \<open>lam\<close> (the grid value when \<open>lam\<close> is a grid point); for the blackbody
  photon flux it is Planck's formula evaluated at \<open>lam\<close>, not an interpolation.
\<close>

theorem truncation_at_bandgap:
  assumes "sorted_wrt (<) (solar_spectra_wavelength_meters table)"
      and "table \<noteq> []"
      and "bandgap_ev \<noteq> 0"
      and "hd (solar_spectra_wavelength_meters table) \<le> bandgap_wavelength C bandgap_ev"
      and "bandgap_wavelength C bandgap_ev \<le> last (solar_spectra_wavelength_meters table)"
      and "physical C"
      and "0 < temperature"
      and "0 < hd (solar_spectra_wavelength_meters table)"
  shows "bandgap_index C table bandgap_ev < length table
       \<and> integration_wavelength C table bandgap_ev
           = filter (\<lambda>x. x < bandgap_wavelength C bandgap_ev) (solar_spectra_wavelength_meters table)
             @ [bandgap_wavelength C bandgap_ev]
       \<and> (\<exists>b. integration_solar_flux C table bandgap_ev
                 = Inr (take (bandgap_index C table bandgap_ev) (solar_spectra_photon_flux C table) @ [b])
             \<and> (solar_spectra_wavelength_meters table ! bandgap_index C table bandgap_ev
                   = bandgap_wavelength C bandgap_ev
                 \<longrightarrow> b = solar_spectra_photon_flux C table ! bandgap_index C table bandgap_ev)
             \<and> (bandgap_wavelength C bandgap_ev
                   < solar_spectra_wavelength_meters table ! bandgap_index C table bandgap_ev
                 \<longrightarrow> 0 < bandgap_index C table bandgap_ev
                   \<and> b = (solar_spectra_photon_flux C table ! bandgap_index C table bandgap_ev
                          - solar_spectra_photon_flux C table ! (bandgap_index C table bandgap_ev - 1))
                        / (solar_spectra_wavelength_meters table ! bandgap_index C table bandgap_ev
                          - solar_spectra_wavelength_meters table ! (bandgap_index C table bandgap_ev - 1))
                        * (bandgap_wavelength C bandgap_ev
                          - solar_spectra_wavelength_meters table ! (bandgap_index C table bandgap_ev - 1))
                        + solar_spectra_photon_flux C table ! (bandgap_index C table bandgap_ev - 1)))
       \<and> integration_blackbody C table temperature bandgap_ev
           = take (bandgap_index C table bandgap_ev) (blackbody_photon_flux C temperature table)
             @ [bandgap_blackbody C temperature bandgap_ev]
       \<and> blackbody_photon_flux C temperature table
           = map (planck_flux C temperature) (solar_spectra_wavelength_meters table)
       \<and> bandgap_blackbody C temperature bandgap_ev
           = planck_flux C temperature (bandgap_wavelength C bandgap_ev)
       \<and> (\<forall>i<bandgap_index C table bandgap_ev.
             solar_spectra_wavelength_meters table ! i < bandgap_wavelength C bandgap_ev)
       \<and> (\<forall>i. bandgap_index C table bandgap_ev \<le> i \<and> i < length table
             \<longrightarrow> bandgap_wavelength C bandgap_ev \<le> solar_spectra_wavelength_meters table ! i)"
proof -
  let ?wl = "solar_spectra_wavelength_meters table"
  let ?fl = "solar_spectra_photon_flux C table"
  let ?lam = "bandgap_wavelength C bandgap_ev"
  let ?n = "bandgap_index C table bandgap_ev"
  have n: "?n = searchsorted ?wl ?lam" by (simp add: bandgap_index_def)
  have srt: "sorted ?wl" using assms(1) by (rule strict_sorted_imp_sorted)
  have ne: "?wl \<noteq> []" using assms(2) by (simp add: solar_spectra_wavelength_meters_def
        solar_spectra_wavelength_def)
  have len: "length ?wl = length ?fl" by (simp add: wavelength_flux_length)
  note I = interp_linear[OF assms(1) len ne assms(4,5), folded n]
  have 1: "?n < length table" using I by (simp add: wavelength_flux_length)
  have 2: "integration_wavelength C table bandgap_ev = filter (\<lambda>x. x < ?lam) ?wl @ [?lam]"
    by (simp add: integration_wavelength_def n searchsorted_filter[OF srt])
  obtain b where b: "interp ?lam ?wl ?fl = Inr b"
      "?wl ! ?n = ?lam \<longrightarrow> b = ?fl ! ?n"
      "?lam < ?wl ! ?n \<longrightarrow> 0 < ?n
         \<and> b = (?fl ! ?n - ?fl ! (?n - 1)) / (?wl ! ?n - ?wl ! (?n - 1)) * (?lam - ?wl ! (?n - 1))
               + ?fl ! (?n - 1)"
    using I by blast
  have 3: "integration_solar_flux C table bandgap_ev = Inr (take ?n ?fl @ [b])"
    using b(1) by (simp add: integration_solar_flux_def bandgap_irradiance_def)
  have 4: "integration_blackbody C table temperature bandgap_ev
           = take ?n (blackbody_photon_flux C temperature table)
             @ [bandgap_blackbody C temperature bandgap_ev]"
    by (simp add: integration_blackbody_def)
  have 5: "blackbody_photon_flux C temperature table = map (planck_flux C temperature) ?wl"
     "bandgap_blackbody C temperature bandgap_ev = planck_flux C temperature ?lam"
    by (rule blackbody_photon_flux_planck, rule bandgap_blackbody_planck)
  have 6: "\<forall>i<?n. ?wl ! i < ?lam"
    unfolding n using searchsorted_below by blast
  have 7: "\<forall>i. ?n \<le> i \<and> i < length table \<longrightarrow> ?lam \<le> ?wl ! i"
    unfolding n using searchsorted_above[OF srt] by (simp add: wavelength_flux_length)
  from 1 2 3 b(2,3) 4 5 6 7 show ?thesis by blast
qed

theorem truncation_at_bandgap_witness:
  "bandgap_index CODATA example_table example_gap = 1
   \<and> integration_wavelength CODATA example_table example_gap = [5 / 10 ^ 7, 1 / 10 ^ 6]
   \<and> (\<exists>b. integration_solar_flux CODATA example_table example_gap
             = Inr [solar_spectra_photon_flux CODATA example_table ! 0, b])
   \<and> integration_blackbody CODATA example_table 300 example_gap
       = [planck_flux CODATA 300 (5 / 10 ^ 7), planck_flux CODATA 300 (1 / 10 ^ 6)]"
proof -
  have s: "sorted_wrt (<) (solar_spectra_wavelength_meters example_table)"
    by (simp add: example_wavelengths)
  have ne: "example_table \<noteq> []" by (simp add: example_table_def)
  have lo: "hd (solar_spectra_wavelength_meters example_table)
              \<le> bandgap_wavelength CODATA example_gap"
    by (simp add: example_wavelengths example_bandgap_wavelength)
  have hi: "bandgap_wavelength CODATA example_gap
              \<le> last (solar_spectra_wavelength_meters example_table)"
    by (simp add: example_wavelengths example_bandgap_wavelength)
  have n: "bandgap_index CODATA example_table example_gap = 1"
    by (simp add: bandgap_index_def searchsorted_def example_wavelengths example_bandgap_wavelength)
  have fl: "take (Suc 0) (solar_spectra_photon_flux CODATA example_table)
              = [solar_spectra_photon_flux CODATA example_table ! 0]"
    by (simp add: solar_spectra_photon_flux_def example_table_def solar_spectra_irradiance_def
          solar_spectra_wavelength_meters_def solar_spectra_wavelength_def)
  have T: "(0::real) < 300" by simp
  have pos: "0 < hd (solar_spectra_wavelength_meters example_table)"
    by (simp add: example_wavelengths)
  from truncation_at_bandgap[OF s ne example_gap_nonzero lo hi CODATA_physical T pos]
  show ?thesis
    unfolding n by (simp add: example_wavelengths example_bandgap_wavelength fl)
qed

section \<open>Interpolation of the absorbance in slme\<close>

lemma example_material_wavelengths:
  "material_wavelength_for_absorbance_data CODATA [1, 2, 3, 4]
     = [const_c CODATA * h_e CODATA / (1 + 1 / 10 ^ 8) * 10 ^ 9,
        const_c CODATA * h_e CODATA / (2 + 1 / 10 ^ 8) * 10 ^ 9,
        const_c CODATA * h_e CODATA / (3 + 1 / 10 ^ 8) * 10 ^ 9,
        const_c CODATA * h_e CODATA / (4 + 1 / 10 ^ 8) * 10 ^ 9]"
  by (simp add: material_wavelength_for_absorbance_data_def)

text \<open>
  C7 (where the code departs from it). The interpolant of slme is built over
  wavelengths, which fall as the energies rise, while its fill values are the first
  and the last absorbance in the order of the energies. For absorbance data at 1, 2,
  3 and 4 eV, a query at 280 nm lies below every data wavelength (above 4 eV) and
  gets the absorbance of 1 eV; a query at 2000 nm lies above them (below 1 eV) and
  gets the absorbance of 4 eV.
\<close>

theorem fill_values_at_wrong_ends:
  "\<exists>f. material_absorbance_data_function CODATA (\<lambda>points. Inr spline)
            [1, 2, 3, 4] [10, 20, 30, 40] = Inr f
       \<and> 280 < Min (set (material_wavelength_for_absorbance_data CODATA [1, 2, 3, 4]))
       \<and> f 280 = 10
       \<and> Max (set (material_wavelength_for_absorbance_data CODATA [1, 2, 3, 4])) < 2000
       \<and> f 2000 = 40"
proof -
  define w1 where "w1 = const_c CODATA * h_e CODATA / (1 + 1 / 10 ^ 8) * 10 ^ 9"
  define w2 where "w2 = const_c CODATA * h_e CODATA / (2 + 1 / 10 ^ 8) * 10 ^ 9"
  define w3 where "w3 = const_c CODATA * h_e CODATA / (3 + 1 / 10 ^ 8) * 10 ^ 9"
  define w4 where "w4 = const_c CODATA * h_e CODATA / (4 + 1 / 10 ^ 8) * 10 ^ 9"
  have ws: "material_wavelength_for_absorbance_data CODATA [1, 2, 3, 4] = [w1, w2, w3, w4]"
    by (simp add: example_material_wavelengths w1_def w2_def w3_def w4_def)
  have ord: "w4 < w3" "w3 < w2" "w2 < w1" "280 < w4" "w1 < 2000"
    by (simp_all add: w1_def w2_def w3_def w4_def CODATA_def h_e_def)
  have srt: "sort_key fst (zip [w1, w2, w3, w4] [10, 20, 30, 40 :: real])
               = [(w4, 40), (w3, 30), (w2, 20), (w1, 10)]"
    using ord by simp
  have f: "material_absorbance_data_function CODATA (\<lambda>points. Inr spline)
            [1, 2, 3, 4] [10, 20, 30, 40]
           = Inr (\<lambda>x_new. if x_new < w4 then 10 else if x_new > w1 then 40 else spline x_new)"
    unfolding material_absorbance_data_function_def interp1d_def ws Let_def srt
    by (simp cong: if_cong)
  show ?thesis
    unfolding ws f using ord by simp
qed

lemma insort_key_last:
  "\<forall>y\<in>set ys. f y < f z \<Longrightarrow> insort_key f z ys = ys @ [z]"
  by (induction ys) auto

lemma sort_key_decreasing:
  "sorted_wrt (\<lambda>a b. f b < f a) zs \<Longrightarrow> sort_key f zs = rev zs"
proof (induction zs)
  case Nil
  then show ?case by simp
next
  case (Cons z zs)
  then have "sort_key f zs = rev zs" and "\<forall>y\<in>set (rev zs). f y < f z" by simp_all
  then show ?case by (simp add: insort_key_last)
qed

lemma material_wavelength_decreasing:
  assumes "physical C" "sorted_wrt (<) energy_data" "\<forall>E\<in>set energy_data. 0 < E + 1 / 10 ^ 8"
  shows "sorted_wrt (\<lambda>a b. b < a) (material_wavelength_for_absorbance_data C energy_data)"
proof -
  have pos: "0 < const_c C * h_e C" using assms(1) by (simp add: physical_def h_e_def)
  have "const_c C * h_e C / (E2 + 1 / 10 ^ 8) * 10 ^ 9 < const_c C * h_e C / (E1 + 1 / 10 ^ 8) * 10 ^ 9"
    if "E1 < E2" "0 < E1 + 1 / 10 ^ 8" for E1 E2 :: real
  proof -
    have "E1 + 1 / 10 ^ 8 < E2 + 1 / 10 ^ 8" using that by simp
    then have "const_c C * h_e C / (E2 + 1 / 10 ^ 8) < const_c C * h_e C / (E1 + 1 / 10 ^ 8)"
      using pos that by (intro divide_strict_left_mono) (simp_all add: add_pos_pos)
    then show ?thesis by (rule mult_strict_right_mono) simp
  qed
  then have "sorted_wrt (\<lambda>E1 E2. const_c C * h_e C / (E2 + 1 / 10 ^ 8) * 10 ^ 9
                               < const_c C * h_e C / (E1 + 1 / 10 ^ 8) * 10 ^ 9) energy_data"
    using assms(2,3) by (induction energy_data) auto
  then show ?thesis
    unfolding material_wavelength_for_absorbance_data_def by (simp add: sorted_wrt_map)
qed

lemma fill_values_swapped:
  assumes "physical C" "sorted_wrt (<) energy_data" "\<forall>E\<in>set energy_data. 0 < E + 1 / 10 ^ 8"
      and "length energy_data = length absorbance_data" "absorbance_data \<noteq> []"
      and "cubic (rev (zip (material_wavelength_for_absorbance_data C energy_data) absorbance_data))
             = Inr spline"
  shows "material_absorbance_data_function C cubic energy_data absorbance_data
           = Inr (\<lambda>x_new.
                    if x_new < const_c C * h_e C / (last energy_data + 1 / 10 ^ 8) * 10 ^ 9
                    then hd absorbance_data
                    else if x_new > const_c C * h_e C / (hd energy_data + 1 / 10 ^ 8) * 10 ^ 9
                    then last absorbance_data
                    else spline x_new)"
proof -
  let ?ws = "material_wavelength_for_absorbance_data C energy_data"
  let ?zs = "zip ?ws absorbance_data"
  have len: "length ?ws = length absorbance_data"
    using assms(4) by (simp add: material_wavelength_for_absorbance_data_def)
  have ne: "?ws \<noteq> []" "energy_data \<noteq> []" using len assms(4,5) by auto
  have "sorted_wrt (\<lambda>a b. b < a) (map fst ?zs)"
    using material_wavelength_decreasing[OF assms(1,2,3)] len by simp
  then have "sorted_wrt (\<lambda>a b. fst b < fst a) ?zs" by (simp add: sorted_wrt_map)
  then have srt: "sort_key fst ?zs = rev ?zs" by (rule sort_key_decreasing)
  have zne: "?zs \<noteq> []" using ne len assms(5) by (cases ?ws; cases absorbance_data) auto
  have "fst (hd (rev ?zs)) = fst (last ?zs)" using zne by (simp add: hd_rev)
  also have "\<dots> = last (map fst ?zs)" using zne by (simp add: last_map)
  also have "\<dots> = last ?ws" using len by simp
  also have "\<dots> = const_c C * h_e C / (last energy_data + 1 / 10 ^ 8) * 10 ^ 9"
    using ne(2) by (simp add: material_wavelength_for_absorbance_data_def last_map)
  finally have h: "fst (hd (rev ?zs)) = const_c C * h_e C / (last energy_data + 1 / 10 ^ 8) * 10 ^ 9" .
  have "fst (last (rev ?zs)) = fst (hd ?zs)" using zne by (simp add: last_rev)
  also have "\<dots> = hd (map fst ?zs)" using zne by (simp add: hd_map)
  also have "\<dots> = hd ?ws" using len by simp
  also have "\<dots> = const_c C * h_e C / (hd energy_data + 1 / 10 ^ 8) * 10 ^ 9"
    using ne(2) by (simp add: material_wavelength_for_absorbance_data_def hd_map)
  finally have l: "fst (last (rev ?zs)) = const_c C * h_e C / (hd energy_data + 1 / 10 ^ 8) * 10 ^ 9" .
  show ?thesis
    unfolding material_absorbance_data_function_def interp1d_def Let_def srt h l
    using assms(5,6) len ne by (simp cong: if_cong)
qed

section \<open>Further facts about the voltage loop, in exact arithmetic\<close>

text \<open>
  The loop only ever moves to a voltage of higher power, so the power at the voltage
  it leaves with is not below the power at its start. Without a saturation current the
  power \<open>J_sc V\<close> rises for ever, and the loop over the reals has no step at which it
  leaves; the source has no bound on the number of rounds.
\<close>

lemma loop_result_not_below_start:
  assumes "test_voltage_loop P v = Some w"
  shows "P v \<le> P w"
proof -
  have "(\<lambda>(P, v) w. P v \<le> P w) (P, v) w"
  proof (rule test_voltage_loop.raw_induct[OF _ assms])
    fix loop :: "(real \<Rightarrow> real) \<Rightarrow> real \<Rightarrow> real option" and Q :: "real \<Rightarrow> real" and u y
    assume IH: "\<And>Q u y. loop Q u = Some y \<Longrightarrow> (\<lambda>(P, v) w. P v \<le> P w) (Q, u) y"
      and body: "(if Q u < Q (u + voltage_step) then loop Q (u + voltage_step) else Some u) = Some y"
    show "(\<lambda>(P, v) w. P v \<le> P w) (Q, u) y"
    proof (cases "Q u < Q (u + voltage_step)")
      case True
      then have "loop Q (u + voltage_step) = Some y" using body by simp
      then have "Q (u + voltage_step) \<le> Q y" using IH by fastforce
      then show ?thesis using True by simp
    next
      case False
      then show ?thesis using body by simp
    qed
  qed
  then show ?thesis by simp
qed

lemma loop_never_leaves:
  assumes "\<forall>u\<ge>v0. P u < P (u + voltage_step)"
  shows "test_voltage_loop P v0 = None"
proof (rule ccontr)
  assume "test_voltage_loop P v0 \<noteq> None"
  then obtain w where w: "test_voltage_loop P v0 = Some w" by blast
  have "(\<lambda>(Q, v) w. (\<forall>u\<ge>v. Q u < Q (u + voltage_step)) \<longrightarrow> False) (P, v0) w"
  proof (rule test_voltage_loop.raw_induct[OF _ w])
    fix loop :: "(real \<Rightarrow> real) \<Rightarrow> real \<Rightarrow> real option" and Q :: "real \<Rightarrow> real" and u y
    assume IH: "\<And>Q u y. loop Q u = Some y
                  \<Longrightarrow> (\<lambda>(Q, v) w. (\<forall>u\<ge>v. Q u < Q (u + voltage_step)) \<longrightarrow> False) (Q, u) y"
      and body: "(if Q u < Q (u + voltage_step) then loop Q (u + voltage_step) else Some u) = Some y"
    show "(\<lambda>(Q, v) w. (\<forall>u\<ge>v. Q u < Q (u + voltage_step)) \<longrightarrow> False) (Q, u) y"
    proof (clarify)
      assume up: "\<forall>t\<ge>u. Q t < Q (t + voltage_step)"
      then have "Q u < Q (u + voltage_step)" by simp
      then have "loop Q (u + voltage_step) = Some y" using body by simp
      from IH[OF this] have n: "\<not> (\<forall>t\<ge>u + voltage_step. Q t < Q (t + voltage_step))" by simp
      have h: "0 < voltage_step" by (simp add: voltage_step_def)
      have "Q t < Q (t + voltage_step)" if "u + voltage_step \<le> t" for t
      proof -
        have "u \<le> t" using that h by linarith
        then show ?thesis using up by blast
      qed
      with n show False by blast
    qed
  qed
  then show False using assms by auto
qed

lemma loop_diverges_without_saturation:
  assumes "0 < J_sc"
  shows "test_voltage_loop (power_V C J_sc 0 temperature) 0 = None"
    and "max_power (power_V C J_sc 0 temperature) = None"
proof -
  have "power_V C J_sc 0 temperature u < power_V C J_sc 0 temperature (u + voltage_step)" for u
    using assms by (simp add: power_V_def J_def voltage_step_def)
  then show "test_voltage_loop (power_V C J_sc 0 temperature) 0 = None"
    by (intro loop_never_leaves) simp
  then show "max_power (power_V C J_sc 0 temperature) = None"
    by (simp add: max_power_def)
qed

end
